theory Spec2Isabelle
  imports Complex_Main "HOL-Library.Multiset"
begin

section \<open>Conventions of the embedding\<close>

text \<open>
  The development embeds \<^verbatim>\<open>nonlinear_mor/utils/parameters.py\<close> and the orchestration
  code of \<^verbatim>\<open>nonlinear_mor/reductors/neural_network.py\<close>.

  \<^item> A Python exception is a value of \<open>error\<close>; a function that can raise returns
    \<open>error + 'a\<close> with \<open>Inl\<close> for the exception.
  \<^item> Finite floating point numbers are real numbers: rounding and overflow are not
    modelled. Two operations are treated apart, because their floating point behaviour
    decides what the code does. Division of numpy and torch numbers never raises: it
    yields \<open>NaN\<close> or an infinity when the divisor is zero, so a quotient is an \<open>npfloat\<close>.
    The power operator \<^verbatim>\<open>**\<close> on floats is a parameter \<open>float_pow\<close> of the sampling
    function; the exact operator is \<open>powr\<close>.
  \<^item> The collaborators that are not part of the two files (the full order model, the
    registration, the POD routine, the random shuffle and the network trainer) are
    parameters, collected in a record; every call of one of them is written to a trace of
    events that is threaded through the pipeline.
\<close>

datatype error =
    AssertionError
  | ZeroDivisionError
  | ValueError
  | AttributeError
  | UnboundLocalError
  | TypeError
  | TrainingError

text \<open>An argument that Python checks with \<^verbatim>\<open>isinstance(x, int)\<close>.\<close>

datatype py_number = PyInt int | PyFloat real

fun isinstance_int :: "py_number \<Rightarrow> bool" where
  "isinstance_int (PyInt _) = True"
| "isinstance_int (PyFloat _) = False"

fun py_gt :: "py_number \<Rightarrow> int \<Rightarrow> bool" where
  "py_gt (PyInt n) k = (n > k)"
| "py_gt (PyFloat x) k = (x > of_int k)"

fun py_ge :: "py_number \<Rightarrow> int \<Rightarrow> bool" where
  "py_ge (PyInt n) k = (n \<ge> k)"
| "py_ge (PyFloat x) k = (x \<ge> of_int k)"

fun py_real :: "py_number \<Rightarrow> real" where
  "py_real (PyInt n) = of_int n"
| "py_real (PyFloat x) = x"

section \<open>\<^verbatim>\<open>utils/parameters.py\<close>: sampling a cubic parameter space\<close>

text \<open>
  An array of at most two dimensions, as \<^verbatim>\<open>sample\<close> can return it: a 0-dimensional
  array, a vector, or a matrix given by its rows.
\<close>

datatype ndarray = Arr0 real | Arr1 "real list" | Arr2 "real list list"

text \<open>Python's \<^verbatim>\<open>len\<close>: a 0-dimensional array has no length.\<close>

fun len :: "ndarray \<Rightarrow> error + nat" where
  "len (Arr0 _) = Inl TypeError"
| "len (Arr1 xs) = Inr (length xs)"
| "len (Arr2 rows) = Inr (length rows)"

text \<open>
  \<^verbatim>\<open>np.linspace(start, stop, num)\<close> for \<open>num \<ge> 0\<close>: no point, the start alone, or
  \<open>num\<close> points with step \<open>(stop - start) / (num - 1)\<close>.
\<close>

definition linspace :: "real \<Rightarrow> real \<Rightarrow> nat \<Rightarrow> real list" where
  "linspace start stop num =
     (if num = 0 then []
      else if num = 1 then [start]
      else map (\<lambda>i. start + real i * ((stop - start) / real (num - 1))) [0..<num])"

text \<open>
  \<^verbatim>\<open>np.stack([t.T for t in np.meshgrid(*ls)], axis=-1).reshape(-1, dim)\<close>: the rows are
  the points of the Cartesian product. With the default \<^verbatim>\<open>indexing='xy'\<close> the first two
  axes of the mesh are swapped, the transposition reverses all axes, and the reshape
  walks the result in row-major order: the last coordinate changes slowest, then the
  last but one, down to the third, then the first, and the second changes fastest.
\<close>

definition meshgrid_points :: "'a list list \<Rightarrow> 'a list list" where
  "meshgrid_points ls =
     (let d = length ls in
      if d < 2 then product_lists ls
      else map (\<lambda>t. drop (d - 2) t @ rev (take (d - 2) t))
             (product_lists (rev (drop 2 ls) @ take 2 ls)))"

text \<open>
  \<^verbatim>\<open>squeeze\<close> on an array of shape \<open>(length rows, d)\<close>: every axis of length one is
  removed.
\<close>

definition squeeze :: "nat \<Rightarrow> real list list \<Rightarrow> ndarray" where
  "squeeze d rows =
     (if length rows = 1 \<and> d = 1 then Arr0 (hd (hd rows))
      else if length rows = 1 then Arr1 (hd rows)
      else if d = 1 then Arr1 (map hd rows)
      else Arr2 rows)"

text \<open>
  \<^verbatim>\<open>CubicParameterSpace.sample\<close>. \<open>extends\<close> is the list of pairs \<open>(p_min, p_max)\<close>.
  \<open>float_pow n (1 / dim)\<close> stands for the floating point value of the expression
  \<^verbatim>\<open>num_samples**(1/self.dim)\<close>, with the rounding of the exponent and of the power. The
  division \<^verbatim>\<open>1 / self.dim\<close> is a division of Python integers and raises for \<open>dim = 0\<close>;
  \<^verbatim>\<open>np.linspace\<close> raises for a negative number of points. The message to the logger is
  left out.
\<close>

definition sample ::
  "(real \<Rightarrow> real \<Rightarrow> real) \<Rightarrow> (real \<times> real) list \<Rightarrow> py_number \<Rightarrow> string \<Rightarrow> error + ndarray" where
  "sample float_pow extends num_samples mode =
     (if mode \<notin> set [''uniform''] then Inl AssertionError
      else if \<not> (isinstance_int num_samples \<and> py_ge num_samples 1) then Inl AssertionError
      else if mode = ''uniform'' then
        (let dim = length extends in
         if dim = 0 then Inl ZeroDivisionError
         else
           (let number_of_parameters_per_dimension =
                  \<lceil>float_pow (py_real num_samples) (1 / real dim)\<rceil>
            in if number_of_parameters_per_dimension < 0 then Inl ValueError
               else
                 (let linspace_list =
                        map (\<lambda>(p_min, p_max).
                               linspace p_min p_max (nat number_of_parameters_per_dimension))
                          extends;
                      parameters = meshgrid_points linspace_list
                  in if length parameters \<noteq> nat number_of_parameters_per_dimension ^ dim
                     then Inl AssertionError
                     else Inr (squeeze dim parameters))))
      else Inl UnboundLocalError)"

section \<open>\<^verbatim>\<open>reductors/neural_network.py\<close>: the reduction pipeline\<close>

subsection \<open>Collaborators and the trace of their calls\<close>

text \<open>
  One event per call of a collaborator: a solve of the full order model for a parameter,
  a registration for a parameter together with the initial guess it was given, the
  warning of \<^verbatim>\<open>register_full_solutions\<close>, the POD, and one training of a network with
  the layer sizes it was built from.
\<close>

datatype ('p, 'vf) event =
    FomSolve 'p
  | Registration 'p "'vf option"
  | LogWarning
  | PodCall
  | TrainCall "nat list"

text \<open>
  A number that a division of numpy or torch returns: finite, or the outcome of a
  division by zero.
\<close>

datatype npfloat = Finite real | PosInf | NegInf | NaN

text \<open>
  A tensor is the list of its entries in row-major order; its shape is not kept, the
  number of its entries is the length of the list.
\<close>

type_synonym tensor = "real list"

type_synonym normalized_tensor = "npfloat list"

text \<open>
  A training parameter, as the elements of the (squeezed) array of samples are: a number
  when the parameter space has one dimension, and the array of its coordinates when it
  has more. \<^verbatim>\<open>torch.Tensor([mu, ])\<close> has shape \<open>(1)\<close> for a number and shape
  \<open>(1, dim)\<close> for an array of \<open>dim\<close> coordinates: its entries are the entries of
  \<open>mu\<close>.
\<close>

datatype parameter = Scalar real | Point "real list"

fun parameter_entries :: "parameter \<Rightarrow> real list" where
  "parameter_entries (Scalar x) = [x]"
| "parameter_entries (Point xs) = xs"

definition torch_tensor :: "parameter list \<Rightarrow> tensor" where
  "torch_tensor ps = concat (map parameter_entries ps)"

text \<open>
  What the reductor is constructed from and calls: \<open>fom_solve\<close> is \<^verbatim>\<open>fom.solve\<close>;
  \<open>register reference u initial\<close> is the field \<^verbatim>\<open>'initial_vector_field'\<close> of the result
  of \<^verbatim>\<open>geodesic_shooter.register\<close>; \<open>cauchy_navier\<close> is the product operator of the
  regulariser; \<open>pod fields modes product_operator\<close> returns the matrix of the reduced
  velocity fields (one row per mode) and the singular values; \<open>to_numpy\<close> is
  \<^verbatim>\<open>a.to_numpy().flatten()\<close>; \<open>shuffle\<close> is the outcome of \<^verbatim>\<open>random.shuffle\<close>;
  \<open>train i layers_sizes training_data validation_data\<close> is the outcome of the \<open>i\<close>-th
  construction and training of a network: it raises, or returns the trained network and
  its best validation loss, a float that may be \<open>NaN\<close> or infinite.
\<close>

record ('s, 'vf, 'net) collaborators =
  fom_solve :: "parameter \<Rightarrow> 's"
  register :: "'s \<Rightarrow> 's \<Rightarrow> 'vf option \<Rightarrow> 'vf"
  cauchy_navier :: "'vf \<Rightarrow> 'vf"
  pod :: "'vf list \<Rightarrow> int \<Rightarrow> ('vf \<Rightarrow> 'vf) \<Rightarrow> real list list \<times> real list"
  to_numpy :: "'vf \<Rightarrow> real list"
  shuffle :: "(tensor \<times> tensor) list \<Rightarrow> (tensor \<times> tensor) list"
  train :: "nat \<Rightarrow> nat list \<Rightarrow> (normalized_tensor \<times> normalized_tensor) list
              \<Rightarrow> (normalized_tensor \<times> normalized_tensor) list \<Rightarrow> error + 'net \<times> npfloat"

subsection \<open>Full solutions and registration\<close>

text \<open>
  \<^verbatim>\<open>compute_full_solutions\<close>: the content of the cache file when one is given, else one
  solve per training parameter, in the order of the training set.
\<close>

definition compute_full_solutions ::
  "('p \<Rightarrow> 's) \<Rightarrow> 'p list \<Rightarrow> ('p \<times> 's) list option \<Rightarrow> ('p, 'vf) event list
     \<Rightarrow> ('p, 'vf) event list \<times> ('p \<times> 's) list" where
  "compute_full_solutions solve training_set full_solutions_file trace =
     (case full_solutions_file of
        Some cached \<Rightarrow> (trace, cached)
      | None \<Rightarrow> (trace @ map FomSolve training_set, map (\<lambda>mu. (mu, solve mu)) training_set))"

text \<open>
  \<^verbatim>\<open>perform_single_registration\<close>: the registration of one full solution against the
  reference solution. Writing the intermediate results to files is left out.
\<close>

definition perform_single_registration ::
  "('s \<Rightarrow> 's \<Rightarrow> 'vf option \<Rightarrow> 'vf) \<Rightarrow> 's \<Rightarrow> 'p \<times> 's \<Rightarrow> 'vf option \<Rightarrow> 'vf" where
  "perform_single_registration reg reference_solution input initial_velocity_field =
     (case input of (mu, u) \<Rightarrow> reg reference_solution u initial_velocity_field)"

text \<open>
  The sequential loop of \<^verbatim>\<open>register_full_solutions\<close>; \<open>i\<close> is the index that
  \<^verbatim>\<open>enumerate\<close> yields and \<open>full_velocity_fields\<close> the list built so far.
\<close>

fun register_sequentially ::
  "('s \<Rightarrow> 's \<Rightarrow> 'vf option \<Rightarrow> 'vf) \<Rightarrow> 's \<Rightarrow> bool \<Rightarrow> ('p \<times> 's) list \<Rightarrow> nat \<Rightarrow> 'vf list
     \<Rightarrow> ('p, 'vf) event list \<Rightarrow> ('p, 'vf) event list \<times> 'vf list" where
  "register_sequentially reg reference_solution reuse_vector_fields [] i full_velocity_fields trace =
     (trace, full_velocity_fields)"
| "register_sequentially reg reference_solution reuse_vector_fields ((mu, u) # rest) i
       full_velocity_fields trace =
     (let initial_velocity_field =
            (if reuse_vector_fields \<and> i > 0 then Some (last full_velocity_fields) else None)
      in register_sequentially reg reference_solution reuse_vector_fields rest (i + 1)
           (full_velocity_fields @
              [perform_single_registration reg reference_solution (mu, u) initial_velocity_field])
           (trace @ [Registration mu initial_velocity_field]))"

text \<open>
  \<^verbatim>\<open>register_full_solutions\<close>. With more than one worker the pool maps the registration
  without an initial guess over the full solutions and returns the results in their order;
  the trace lists these calls in the same order.
\<close>

definition register_full_solutions ::
  "('s \<Rightarrow> 's \<Rightarrow> 'vf option \<Rightarrow> 'vf) \<Rightarrow> 's \<Rightarrow> ('p \<times> 's) list \<Rightarrow> int \<Rightarrow> 'vf list option \<Rightarrow> bool
     \<Rightarrow> ('p, 'vf) event list \<Rightarrow> ('p, 'vf) event list \<times> 'vf list" where
  "register_full_solutions reg reference_solution full_solutions num_workers
       full_velocity_fields_file reuse_vector_fields trace =
     (case full_velocity_fields_file of
        Some cached \<Rightarrow> (trace, cached)
      | None \<Rightarrow>
          if num_workers > 1 then
            (let trace1 = (if reuse_vector_fields then trace @ [LogWarning] else trace)
             in (trace1 @ map (\<lambda>(mu, u). Registration mu None) full_solutions,
                 map (\<lambda>input. perform_single_registration reg reference_solution input None)
                   full_solutions))
          else register_sequentially reg reference_solution reuse_vector_fields full_solutions 0 []
                 trace)"

subsection \<open>Reduced coefficients\<close>

definition dot :: "real list \<Rightarrow> real list \<Rightarrow> real" where
  "dot v w = sum_list (map (\<lambda>(a, b). a * b) (zip v w))"

text \<open>\<^verbatim>\<open>np.stack\<close> of a list of flat arrays: the list must not be empty and the arrays must
  have one length.\<close>

definition np_stack :: "real list list \<Rightarrow> error + real list list" where
  "np_stack arrays =
     (if arrays = [] then Inl ValueError
      else if list_all (\<lambda>a. length a = length (hd arrays)) arrays then Inr arrays
      else Inl ValueError)"

text \<open>
  \<^verbatim>\<open>snapshot_matrix.dot(reduced_velocity_fields.T)\<close>: entry \<open>(i, j)\<close> is the Euclidean dot
  product of row \<open>i\<close> of the snapshot matrix with row \<open>j\<close> of the matrix of reduced velocity
  fields; the rows of the two matrices must have one length.
\<close>

definition reduced_coefficients :: "real list list \<Rightarrow> real list list \<Rightarrow> error + real list list" where
  "reduced_coefficients snapshot_matrix reduced_velocity_fields =
     (if list_all (\<lambda>b. length b = length (hd snapshot_matrix)) reduced_velocity_fields
      then Inr (map (\<lambda>v. map (\<lambda>b. dot v b) reduced_velocity_fields) snapshot_matrix)
      else Inl ValueError)"

text \<open>
  The coefficient as the specification words it: the inner product that the decomposition
  used, that is the Euclidean product with the product operator applied to the velocity
  field, as \<^verbatim>\<open>examples/test_registration.py\<close> computes it.
\<close>

definition spec_coefficient :: "(real list \<Rightarrow> real list) \<Rightarrow> real list \<Rightarrow> real list \<Rightarrow> real" where
  "spec_coefficient product_operator v b = dot b (product_operator v)"

subsection \<open>Training data, validation split and normalisation\<close>

text \<open>The two slices of \<^verbatim>\<open>reduce\<close>: the validation data and the training data.\<close>

definition split_index :: "nat \<Rightarrow> nat" where
  "split_index n = nat \<lfloor>0.1 * real n\<rfloor>"

definition validation_slice :: "'a list \<Rightarrow> 'a list" where
  "validation_slice training_data = take (split_index (length training_data) + 1) training_data"

definition training_slice :: "'a list \<Rightarrow> 'a list" where
  "training_slice training_data = drop (split_index (length training_data) + 2) training_data"

record normalization =
  min_input :: real
  max_input :: real
  min_output :: real
  max_output :: real

text \<open>\<^verbatim>\<open>np.min\<close> and \<^verbatim>\<open>np.max\<close> over all entries; they raise on an empty array.\<close>

definition np_min :: "real list \<Rightarrow> error + real" where
  "np_min xs = (case xs of [] \<Rightarrow> Inl ValueError | y # ys \<Rightarrow> Inr (fold min ys y))"

definition np_max :: "real list \<Rightarrow> error + real" where
  "np_max xs = (case xs of [] \<Rightarrow> Inl ValueError | y # ys \<Rightarrow> Inr (fold max ys y))"

text \<open>
  \<^verbatim>\<open>compute_normalization\<close> sets the four attributes; the state of the reductor is
  \<open>None\<close> before and \<open>Some\<close> of the four bounds after.
\<close>

definition compute_normalization ::
  "(tensor \<times> tensor) list \<Rightarrow> (tensor \<times> tensor) list \<Rightarrow> error + normalization" where
  "compute_normalization training_data validation_data =
     (let inputs = concat (map fst (training_data @ validation_data));
          outputs = concat (map snd (training_data @ validation_data))
      in case np_min inputs of Inl e \<Rightarrow> Inl e | Inr mn_in \<Rightarrow>
         (case np_max inputs of Inl e \<Rightarrow> Inl e | Inr mx_in \<Rightarrow>
         (case np_min outputs of Inl e \<Rightarrow> Inl e | Inr mn_out \<Rightarrow>
         (case np_max outputs of Inl e \<Rightarrow> Inl e | Inr mx_out \<Rightarrow>
            Inr \<lparr>min_input = mn_in, max_input = mx_in,
                 min_output = mn_out, max_output = mx_out\<rparr>))))"

text \<open>
  Division of finite numbers as numpy and torch evaluate it: no exception, \<open>NaN\<close> for
  \<open>0 / 0\<close> and an infinity with the sign of the dividend otherwise (the divisor of the
  normalisation is a difference \<open>max - min\<close> of two bounds, which is the positive zero
  when the bounds are the same number; the sign of a zero bound is not modelled).
  Multiplication and addition of such a quotient with a finite number follow.
\<close>

definition np_true_divide :: "real \<Rightarrow> real \<Rightarrow> npfloat" where
  "np_true_divide a b =
     (if b \<noteq> 0 then Finite (a / b)
      else if a = 0 then NaN
      else if a > 0 then PosInf else NegInf)"

fun np_multiply :: "npfloat \<Rightarrow> real \<Rightarrow> npfloat" where
  "np_multiply (Finite a) b = Finite (a * b)"
| "np_multiply NaN b = NaN"
| "np_multiply PosInf b = (if b = 0 then NaN else if b > 0 then PosInf else NegInf)"
| "np_multiply NegInf b = (if b = 0 then NaN else if b > 0 then NegInf else PosInf)"

fun np_add :: "npfloat \<Rightarrow> real \<Rightarrow> npfloat" where
  "np_add (Finite a) b = Finite (a + b)"
| "np_add x b = x"

text \<open>
  The three scalings act on every entry of a tensor. Reading an attribute that
  \<^verbatim>\<open>compute_normalization\<close> has not set raises \<^verbatim>\<open>AttributeError\<close>.
\<close>

definition normalize_input :: "normalization option \<Rightarrow> tensor \<Rightarrow> error + normalized_tensor" where
  "normalize_input self data =
     (case self of
        None \<Rightarrow> Inl AttributeError
      | Some s \<Rightarrow>
          Inr (map (\<lambda>x. np_true_divide (x - min_input s) (max_input s - min_input s)) data))"

definition normalize_output :: "normalization option \<Rightarrow> tensor \<Rightarrow> error + normalized_tensor" where
  "normalize_output self data =
     (case self of
        None \<Rightarrow> Inl AttributeError
      | Some s \<Rightarrow>
          Inr (map (\<lambda>x. np_true_divide (x - min_output s) (max_output s - min_output s)) data))"

definition denormalize_output ::
  "normalization option \<Rightarrow> normalized_tensor \<Rightarrow> error + normalized_tensor" where
  "denormalize_output self data =
     (case self of
        None \<Rightarrow> Inl AttributeError
      | Some s \<Rightarrow>
          Inr (map (\<lambda>x. np_add (np_multiply x (max_output s - min_output s)) (min_output s)) data))"

text \<open>
  A list comprehension whose body can raise: the first exception ends it. It is the list
  comprehension of \<^verbatim>\<open>normalize\<close>, which is \<open>normalize_data\<close> here and raises
  \<^verbatim>\<open>AssertionError\<close> when the bounds have not been computed.
\<close>

fun comprehension :: "('a \<Rightarrow> error + 'b) \<Rightarrow> 'a list \<Rightarrow> error + 'b list" where
  "comprehension f [] = Inr []"
| "comprehension f (x # xs) =
     (case f x of
        Inl e \<Rightarrow> Inl e
      | Inr y \<Rightarrow> (case comprehension f xs of Inl e \<Rightarrow> Inl e | Inr ys \<Rightarrow> Inr (y # ys)))"

definition normalize_data ::
  "normalization option \<Rightarrow> (tensor \<times> tensor) list
     \<Rightarrow> error + (normalized_tensor \<times> normalized_tensor) list" where
  "normalize_data self data =
     (if self = None then Inl AssertionError
      else comprehension
             (\<lambda>elem. case normalize_input self (fst elem) of
                       Inl e \<Rightarrow> Inl e
                     | Inr a \<Rightarrow>
                         (case normalize_output self (snd elem) of
                            Inl e \<Rightarrow> Inl e
                          | Inr b \<Rightarrow> Inr (a, b)))
             data)"

subsection \<open>Training with restarts\<close>

text \<open>
  The comparison \<^verbatim>\<open>>\<close> of two floats: every comparison with \<open>NaN\<close> is false.
\<close>

fun float_gt :: "npfloat \<Rightarrow> npfloat \<Rightarrow> bool" where
  "float_gt NaN y = False"
| "float_gt x NaN = False"
| "float_gt (Finite a) (Finite b) = (a > b)"
| "float_gt (Finite a) PosInf = False"
| "float_gt (Finite a) NegInf = True"
| "float_gt PosInf PosInf = False"
| "float_gt PosInf y = True"
| "float_gt NegInf y = False"

text \<open>
  \<^verbatim>\<open>train_neural_network\<close> builds a network from the layer sizes, trains it and returns
  the network of the trainer with its best loss; \<open>i\<close> counts the calls.
\<close>

definition train_neural_network ::
  "(nat \<Rightarrow> nat list \<Rightarrow> 'd \<Rightarrow> 'd \<Rightarrow> error + 'net \<times> npfloat) \<Rightarrow> nat \<Rightarrow> nat list \<Rightarrow> 'd \<Rightarrow> 'd
     \<Rightarrow> error + 'net \<times> npfloat" where
  "train_neural_network tr i layers_sizes training_data validation_data =
     tr i layers_sizes training_data validation_data"

text \<open>
  The loop of \<^verbatim>\<open>multiple_restarts_training\<close> over \<^verbatim>\<open>range(restarts)\<close>. The state is
  the pair \<open>(best_neural_network, best_loss)\<close>, both \<^verbatim>\<open>None\<close> at the start. Nothing
  catches an exception of the training: it ends the loop and the call.
\<close>

fun restarts_loop ::
  "(nat \<Rightarrow> nat list \<Rightarrow> 'd \<Rightarrow> 'd \<Rightarrow> error + 'net \<times> npfloat) \<Rightarrow> nat list \<Rightarrow> 'd \<Rightarrow> 'd \<Rightarrow> nat list
     \<Rightarrow> 'net option \<times> npfloat option \<Rightarrow> ('p, 'vf) event list
     \<Rightarrow> ('p, 'vf) event list \<times> (error + 'net option \<times> npfloat option)" where
  "restarts_loop tr layers_sizes training_data validation_data [] best trace = (trace, Inr best)"
| "restarts_loop tr layers_sizes training_data validation_data (i # rest) best trace =
     (case train_neural_network tr i layers_sizes training_data validation_data of
        Inl e \<Rightarrow> (trace @ [TrainCall layers_sizes], Inl e)
      | Inr (neural_network, loss) \<Rightarrow>
          restarts_loop tr layers_sizes training_data validation_data rest
            (if (case snd best of None \<Rightarrow> True | Some best_loss \<Rightarrow> float_gt best_loss loss)
             then (Some neural_network, Some loss)
             else best)
            (trace @ [TrainCall layers_sizes]))"

definition multiple_restarts_training ::
  "(nat \<Rightarrow> nat list \<Rightarrow> 'd \<Rightarrow> 'd \<Rightarrow> error + 'net \<times> npfloat) \<Rightarrow> 'd \<Rightarrow> 'd \<Rightarrow> nat list \<Rightarrow> int
     \<Rightarrow> ('p, 'vf) event list
     \<Rightarrow> ('p, 'vf) event list \<times> (error + 'net option \<times> npfloat option)" where
  "multiple_restarts_training tr training_data validation_data layers_sizes restarts trace =
     restarts_loop tr layers_sizes training_data validation_data [0..<nat restarts] (None, None)
       trace"

subsection \<open>The reduced model and \<^verbatim>\<open>reduce\<close>\<close>

text \<open>
  The reduced model keeps the reference solution, the reduced velocity fields, the
  network, and the two scalings, which are bound methods of the reductor and so carry its
  normalisation bounds.
\<close>

record ('s, 'net) reduced_spacetime_model =
  rom_reference_solution :: 's
  rom_velocity_fields :: "real list list"
  rom_neural_network :: "'net option"
  rom_normalization :: "normalization option"

definition build_rom ::
  "'s \<Rightarrow> normalization option \<Rightarrow> real list list \<Rightarrow> 'net option \<Rightarrow> ('s, 'net) reduced_spacetime_model" where
  "build_rom reference_solution self velocity_fields neural_network =
     \<lparr>rom_reference_solution = reference_solution, rom_velocity_fields = velocity_fields,
      rom_neural_network = neural_network, rom_normalization = self\<rparr>"

text \<open>The dictionary that \<^verbatim>\<open>reduce\<close> returns with the model when \<^verbatim>\<open>return_all\<close> is set.\<close>

record ('vf) reduce_all =
  all_reduced_velocity_fields :: "real list list"
  all_singular_values :: "real list"
  all_full_velocity_fields :: "'vf list"
  all_training_data :: "(normalized_tensor \<times> normalized_tensor) list"
  all_validation_data :: "(normalized_tensor \<times> normalized_tensor) list"
  all_best_loss :: "npfloat option"

fun py_int :: "py_number \<Rightarrow> int" where
  "py_int (PyInt n) = n"
| "py_int (PyFloat x) = \<lfloor>x\<rfloor>"

text \<open>
  \<^verbatim>\<open>reduce\<close>. The reference solution is the one computed when the reductor was
  constructed. The parameters that are only handed on to the registration and to the
  trainer (\<^verbatim>\<open>registration_params\<close>, \<^verbatim>\<open>trainer_params\<close>, \<^verbatim>\<open>training_params\<close>,
  \<^verbatim>\<open>save_intermediate_results\<close>) are part of the collaborators. The two cache files are
  given by their content.
\<close>

definition reduce ::
  "('s, 'vf, 'net) collaborators \<Rightarrow> 's \<Rightarrow> parameter list \<Rightarrow> py_number \<Rightarrow> bool \<Rightarrow> py_number
     \<Rightarrow> nat list \<Rightarrow> int \<Rightarrow> (parameter \<times> 's) list option \<Rightarrow> 'vf list option \<Rightarrow> bool
     \<Rightarrow> (parameter, 'vf) event list
     \<Rightarrow> (parameter, 'vf) event list
         \<times> (error + ('s, 'net) reduced_spacetime_model \<times> 'vf reduce_all option)" where
  "reduce col reference_solution training_set max_basis_size return_all restarts hidden_layers
       num_workers full_solutions_file full_velocity_fields_file reuse_vector_fields trace =
     (if \<not> (isinstance_int max_basis_size \<and> py_gt max_basis_size 0) then (trace, Inl AssertionError)
      else if \<not> (isinstance_int restarts \<and> py_gt restarts 0) then (trace, Inl AssertionError)
      else
        (case compute_full_solutions (fom_solve col) training_set full_solutions_file trace of
           (trace1, full_solutions) \<Rightarrow>
        (case register_full_solutions (register col) reference_solution full_solutions num_workers
                full_velocity_fields_file reuse_vector_fields trace1 of
           (trace2, full_velocity_fields) \<Rightarrow>
        (case pod col full_velocity_fields (py_int max_basis_size) (cauchy_navier col) of
           (reduced_velocity_fields, singular_values) \<Rightarrow>
        (case np_stack (map (to_numpy col) full_velocity_fields) of
           Inl e \<Rightarrow> (trace2 @ [PodCall], Inl e)
         | Inr snapshot_matrix \<Rightarrow>
        (case reduced_coefficients snapshot_matrix reduced_velocity_fields of
           Inl e \<Rightarrow> (trace2 @ [PodCall], Inl e)
         | Inr coefficients \<Rightarrow>
        (let shuffled =
               shuffle col
                 (map (\<lambda>((mu, u), coeff). (torch_tensor [mu], coeff))
                    (zip full_solutions coefficients));
             validation_data = validation_slice shuffled;
             training_data = training_slice shuffled
         in
        (case compute_normalization training_data validation_data of
           Inl e \<Rightarrow> (trace2 @ [PodCall], Inl e)
         | Inr stats \<Rightarrow>
        (case normalize_data (Some stats) training_data of
           Inl e \<Rightarrow> (trace2 @ [PodCall], Inl e)
         | Inr training_data_n \<Rightarrow>
        (case normalize_data (Some stats) validation_data of
           Inl e \<Rightarrow> (trace2 @ [PodCall], Inl e)
         | Inr validation_data_n \<Rightarrow>
        (let layers_sizes = [1] @ hidden_layers @ [length (hd coefficients)]
         in
        (case multiple_restarts_training (train col) training_data_n validation_data_n layers_sizes
                (py_int restarts) (trace2 @ [PodCall]) of
           (trace3, Inl e) \<Rightarrow> (trace3, Inl e)
         | (trace3, Inr (best_ann, best_loss)) \<Rightarrow>
             (trace3,
              Inr (build_rom reference_solution (Some stats) reduced_velocity_fields best_ann,
                   if return_all
                   then Some \<lparr>all_reduced_velocity_fields = reduced_velocity_fields,
                              all_singular_values = singular_values,
                              all_full_velocity_fields = full_velocity_fields,
                              all_training_data = training_data_n,
                              all_validation_data = validation_data_n,
                              all_best_loss = best_loss\<rparr>
                   else None))))))))))))))"

section \<open>Example inputs\<close>

text \<open>
  The power operator of binary64 arithmetic at the one argument the example of the
  sampling needs. Python evaluates \<^verbatim>\<open>100000 ** (1/5)\<close> to \<^verbatim>\<open>10.000000000000002\<close>, which
  is \<open>10 + 1 / 2 ^ 49\<close>, the binary64 number that follows \<open>10\<close>: the exponent \<^verbatim>\<open>1/5\<close> is
  rounded up to the binary64 number \<open>0.200000000000000011\<close>, and the power of \<open>100000\<close>
  to it exceeds \<open>10\<close> by \<open>1.28e-15\<close>, more than half of the gap \<open>1.78e-15\<close> to that
  number. At every other argument the exact power stands in.
\<close>

definition binary64_pow_example :: "real \<Rightarrow> real \<Rightarrow> real" where
  "binary64_pow_example x y = (if x = 100000 \<and> y = 1 / 5 then 10 + 1 / 2 ^ 49 else x powr y)"

text \<open>A registration on numbers: the target, plus the initial guess when there is one.\<close>

definition example_register :: "nat \<Rightarrow> nat \<Rightarrow> nat option \<Rightarrow> nat" where
  "example_register reference u initial = (case initial of None \<Rightarrow> u | Some v \<Rightarrow> u + v)"

text \<open>
  Three trainers: the first raises in its first run, the second returns the loss \<open>NaN\<close>
  in its first run, the third returns the losses \<open>3\<close>, \<open>NaN\<close>, \<open>1\<close>, \<open>1\<close>. The network that
  run \<open>i\<close> returns is the number \<open>i\<close>.
\<close>

definition diverging_first :: "nat \<Rightarrow> nat list \<Rightarrow> unit \<Rightarrow> unit \<Rightarrow> error + nat \<times> npfloat" where
  "diverging_first i layers_sizes training_data validation_data =
     (if i = 0 then Inl TrainingError else Inr (i, Finite 1))"

definition nan_first :: "nat \<Rightarrow> nat list \<Rightarrow> unit \<Rightarrow> unit \<Rightarrow> error + nat \<times> npfloat" where
  "nan_first i layers_sizes training_data validation_data =
     Inr (i, if i = 0 then NaN else Finite 1)"

definition example_losses :: "nat \<Rightarrow> npfloat" where
  "example_losses i = [Finite 3, NaN, Finite 1, Finite 1] ! i"

definition example_trainer :: "nat \<Rightarrow> nat list \<Rightarrow> unit \<Rightarrow> unit \<Rightarrow> error + nat \<times> npfloat" where
  "example_trainer i layers_sizes training_data validation_data = Inr (i, example_losses i)"

text \<open>
  Collaborators for a run of \<^verbatim>\<open>reduce\<close>: the solution of a parameter is the sum of its
  coordinates, the velocity field of a solution \<open>u\<close> is the vector with the one entry
  \<open>u * u - reference\<close>, the decomposition returns the basis vector \<open>[1]\<close>, the shuffle
  reverses the list, and run \<open>i\<close> of the trainer returns the network \<open>i\<close> with loss \<open>i\<close>.
\<close>

definition example_collaborators :: "(real, real list, nat) collaborators" where
  "example_collaborators =
     \<lparr>fom_solve = (\<lambda>mu. sum_list (parameter_entries mu)),
      register = (\<lambda>reference u initial. [u * u - reference]),
      cauchy_navier = (\<lambda>v. v),
      pod = (\<lambda>fields modes product_operator. ([[1]], [1])),
      to_numpy = (\<lambda>v. v),
      shuffle = rev,
      train = (\<lambda>i layers_sizes training_data validation_data. Inr (i, Finite (real i)))\<rparr>"

section \<open>Properties\<close>

subsection \<open>Sampling\<close>

lemma length_linspace: "length (linspace a b k) = k"
  by (simp add: linspace_def)

lemma linspace_bounds:
  assumes "a \<le> b" and "x \<in> set (linspace a b k)"
  shows "a \<le> x \<and> x \<le> b"
proof (cases "k \<le> 1")
  case True
  with assms show ?thesis by (auto simp: linspace_def split: if_splits)
next
  case False
  then have k: "2 \<le> k" by simp
  with assms(2) obtain i where i: "i < k" and x: "x = a + real i * ((b - a) / real (k - 1))"
    by (auto simp: linspace_def)
  have r: "0 \<le> real i / real (k - 1)" "real i / real (k - 1) \<le> 1"
    using i k by (simp_all add: divide_le_eq)
  have "x = a + (real i / real (k - 1)) * (b - a)" using x by simp
  moreover have "0 \<le> (real i / real (k - 1)) * (b - a)"
    using r(1) assms(1) by simp
  moreover have "(real i / real (k - 1)) * (b - a) \<le> 1 * (b - a)"
    using r(2) assms(1) by (intro mult_right_mono) simp_all
  ultimately show ?thesis by simp
qed

lemma length_product_lists_uniform:
  "(\<And>l. l \<in> set xss \<Longrightarrow> length l = k) \<Longrightarrow> length (product_lists xss) = k ^ length xss"
proof (induction xss)
  case Nil
  then show ?case by simp
next
  case (Cons xs xss)
  have "length (product_lists (xs # xss)) = length xs * length (product_lists xss)"
    by (simp add: length_concat o_def sum_list_triv)
  with Cons show ?case by simp
qed

lemma length_meshgrid_points:
  assumes "\<And>l. l \<in> set ls \<Longrightarrow> length l = k"
  shows "length (meshgrid_points ls) = k ^ length ls"
proof (cases "length ls < 2")
  case True
  then show ?thesis
    using length_product_lists_uniform [of ls k] assms by (simp add: meshgrid_points_def)
next
  case False
  have "\<And>l. l \<in> set (rev (drop 2 ls) @ take 2 ls) \<Longrightarrow> length l = k"
    using assms by (auto dest: in_set_dropD in_set_takeD)
  then have "length (product_lists (rev (drop 2 ls) @ take 2 ls))
               = k ^ length (rev (drop 2 ls) @ take 2 ls)"
    by (rule length_product_lists_uniform)
  moreover have "length (rev (drop 2 ls) @ take 2 ls) = length ls"
    using False by simp
  ultimately have "length (product_lists (rev (drop 2 ls) @ take 2 ls)) = k ^ length ls"
    by (simp only:)
  then show ?thesis using False by (simp add: meshgrid_points_def Let_def del: product_lists.simps)
qed

lemma meshgrid_points_member:
  assumes "p \<in> set (meshgrid_points ls)"
  shows "list_all2 (\<lambda>x l. x \<in> set l) p ls"
proof (cases "length ls < 2")
  case True
  with assms show ?thesis by (simp add: meshgrid_points_def product_lists_set)
next
  case False
  let ?d = "length ls"
  from assms False obtain t where t: "t \<in> set (product_lists (rev (drop 2 ls) @ take 2 ls))"
    and p: "p = drop (?d - 2) t @ rev (take (?d - 2) t)"
    by (auto simp: meshgrid_points_def Let_def)
  from t have a: "list_all2 (\<lambda>x l. x \<in> set l) t (rev (drop 2 ls) @ take 2 ls)"
    by (simp add: product_lists_set)
  have len: "length (rev (drop 2 ls)) = ?d - 2" by simp
  from a have "list_all2 (\<lambda>x l. x \<in> set l) (take (?d - 2) t) (take (?d - 2) (rev (drop 2 ls) @ take 2 ls))"
    by (rule list_all2_takeI)
  then have h1: "list_all2 (\<lambda>x l. x \<in> set l) (take (?d - 2) t) (rev (drop 2 ls))"
    using len by simp
  from a have "list_all2 (\<lambda>x l. x \<in> set l) (drop (?d - 2) t) (drop (?d - 2) (rev (drop 2 ls) @ take 2 ls))"
    by (rule list_all2_dropI)
  then have h2: "list_all2 (\<lambda>x l. x \<in> set l) (drop (?d - 2) t) (take 2 ls)"
    using len by simp
  from h1 have "list_all2 (\<lambda>x l. x \<in> set l) (rev (take (?d - 2) t)) (rev (rev (drop 2 ls)))"
    by (simp only: list_all2_rev)
  then have h3: "list_all2 (\<lambda>x l. x \<in> set l) (rev (take (?d - 2) t)) (drop 2 ls)" by simp
  from h2 h3 have "list_all2 (\<lambda>x l. x \<in> set l) (drop (?d - 2) t @ rev (take (?d - 2) t)) (take 2 ls @ drop 2 ls)"
    by (rule list_all2_appendI)
  with p show ?thesis by simp
qed

lemma product_lists_singletons: "product_lists (map (\<lambda>x. [x]) xs) = [xs]"
  by (induction xs) simp_all

lemma meshgrid_points_singletons: "meshgrid_points (map (\<lambda>x. [x]) xs) = [xs]"
proof (cases "length xs < 2")
  case True
  then show ?thesis by (simp add: meshgrid_points_def product_lists_singletons)
next
  case False
  have "rev (drop 2 (map (\<lambda>x. [x]) xs)) @ take 2 (map (\<lambda>x. [x]) xs)
          = map (\<lambda>x. [x]) (rev (drop 2 xs) @ take 2 xs)"
    by (simp add: drop_map take_map rev_map)
  then have "product_lists (rev (drop 2 (map (\<lambda>x. [x]) xs)) @ take 2 (map (\<lambda>x. [x]) xs))
          = [rev (drop 2 xs) @ take 2 xs]"
    by (simp only: product_lists_singletons)
  then show ?thesis using False by (simp add: meshgrid_points_def Let_def)
qed

lemma sample_uniform:
  assumes "extends \<noteq> []" and "1 \<le> n"
    and "\<lceil>float_pow (of_int n) (1 / real (length extends))\<rceil> = int k"
  shows "sample float_pow extends (PyInt n) ''uniform'' =
           Inr (squeeze (length extends)
                  (meshgrid_points (map (\<lambda>(p_min, p_max). linspace p_min p_max k) extends)))"
proof -
  let ?ls = "map (\<lambda>(p_min, p_max). linspace p_min p_max k) extends"
  have "\<And>l. l \<in> set ?ls \<Longrightarrow> length l = k"
    by (auto simp: length_linspace)
  then have "length (meshgrid_points ?ls) = k ^ length ?ls"
    by (rule length_meshgrid_points)
  then have "length (meshgrid_points ?ls) = k ^ length extends" by simp
  with assms show ?thesis
    by (simp add: sample_def Let_def)
qed

text \<open>
  With the exact power the sampling does what its formula says: for extents with
  \<open>p_min \<le> p_max\<close> and \<open>n \<ge> 1\<close> samples in dimension \<open>d \<ge> 1\<close> the array that is squeezed
  has \<open>\<lceil>n\<^bsup>1/d\<^esup>\<rceil>\<^bsup>d\<^esup>\<close> rows, at least \<open>n\<close>, and every coordinate of every row lies
  within its extent.
\<close>

lemma sample_exact_power:
  assumes "extends \<noteq> []" and "1 \<le> n" and "\<forall>(a, b)\<in>set extends. a \<le> b"
  shows "\<exists>ps. sample (powr) extends (PyInt n) ''uniform'' = Inr (squeeze (length extends) ps) \<and>
              length ps = nat \<lceil>root (length extends) (of_int n)\<rceil> ^ length extends \<and>
              n \<le> int (length ps) \<and>
              (\<forall>p\<in>set ps. list_all2 (\<lambda>x (a, b). a \<le> x \<and> x \<le> b) p extends)"
proof -
  let ?d = "length extends"
  let ?r = "root ?d (of_int n)"
  define k where "k = nat \<lceil>?r\<rceil>"
  let ?ls = "map (\<lambda>(p_min, p_max). linspace p_min p_max k) extends"
  let ?ps = "meshgrid_points ?ls"
  from assms(1) have d: "0 < ?d" by simp
  from assms(2) have n0: "0 \<le> (of_int n :: real)" by simp
  have pw: "of_int n powr (1 / real ?d) = ?r"
    using root_powr_inverse [OF d n0] by simp
  have "1 \<le> ?r"
    using d assms(2) by (simp add: real_root_ge_1_iff)
  then have r0: "0 \<le> ?r" and c1: "1 \<le> \<lceil>?r\<rceil>" by linarith+
  from c1 have ik: "\<lceil>?r\<rceil> = int k" by (simp add: k_def)
  then have ck: "\<lceil>(of_int n :: real) powr (1 / real ?d)\<rceil> = int k"
    using pw by simp
  have s: "sample (powr) extends (PyInt n) ''uniform'' = Inr (squeeze ?d ?ps)"
    by (rule sample_uniform [where float_pow = "(powr)", OF assms(1) assms(2) ck])
  have "\<And>l. l \<in> set ?ls \<Longrightarrow> length l = k"
    by (auto simp: length_linspace)
  then have "length ?ps = k ^ length ?ls"
    by (rule length_meshgrid_points)
  then have len: "length ?ps = k ^ ?d" by simp
  have "?r \<le> of_int \<lceil>?r\<rceil>" by (rule le_of_int_ceiling)
  then have "?r \<le> real k" by (simp add: ik)
  then have "?r ^ ?d \<le> real k ^ ?d" using r0 by (rule power_mono)
  moreover have "?r ^ ?d = of_int n" by (rule real_root_pow_pos2 [OF d n0])
  ultimately have "(of_int n :: real) \<le> of_int (int (k ^ ?d))" by simp
  then have ge: "n \<le> int (k ^ ?d)" by (simp only: of_int_le_iff)
  have rng: "list_all2 (\<lambda>x (a, b). a \<le> x \<and> x \<le> b) p extends" if "p \<in> set ?ps" for p
  proof -
    from that have "list_all2 (\<lambda>x l. x \<in> set l) p ?ls" by (rule meshgrid_points_member)
    then have "list_all2 (\<lambda>x e. x \<in> set (case e of (p_min, p_max) \<Rightarrow> linspace p_min p_max k)) p extends"
      by (simp add: list_all2_map2)
    then show ?thesis
    proof (rule list.rel_mono_strong)
      fix x e
      assume "x \<in> set (case e of (p_min, p_max) \<Rightarrow> linspace p_min p_max k)" and "e \<in> set extends"
      with assms(3) show "case e of (a, b) \<Rightarrow> a \<le> x \<and> x \<le> b"
        by (cases e) (auto dest: linspace_bounds)
    qed
  qed
  from s len ge rng show ?thesis
    unfolding k_def [symmetric] by (intro exI [of _ ?ps]) simp
qed

lemma root_5_100000: "root 5 100000 = 10"
proof -
  have "root 5 (10 ^ 5) = (10::real)" by (rule real_root_power_cancel) simp_all
  then show ?thesis by simp
qed

text \<open>
  Claim C4. The number of points is meant to be \<open>\<lceil>n\<^bsup>1/d\<^esup>\<rceil>\<^bsup>d\<^esup>\<close> with the exact root. The
  code takes the ceiling of the binary64 value of \<^verbatim>\<open>num_samples**(1/self.dim)\<close>, which
  lies above the root when \<open>n\<close> is a fifth power. For five extents and \<open>n = 100000\<close> the
  value is \<open>10 + 1 / 2 ^ 49\<close>, the ceiling is \<open>11\<close>, and the code returns \<open>11\<^sup>5 = 161051\<close>
  points where the formula gives \<open>10\<^sup>5 = 100000\<close>.
\<close>

theorem sample_binary64_overshoot:
  "(case sample binary64_pow_example [(0, 1), (0, 1), (0, 1), (0, 1), (0, 1)] (PyInt 100000)
           ''uniform'' of
      Inl e \<Rightarrow> Inl e | Inr a \<Rightarrow> len a) = Inr 161051 \<and>
   nat \<lceil>root 5 100000\<rceil> ^ 5 = 100000"
proof -
  let ?ext = "[(0, 1), (0, 1), (0, 1), (0, 1), (0::real, 1::real)]"
  have k: "\<lceil>binary64_pow_example (of_int 100000) (1 / real (length ?ext))\<rceil> = int 11"
    by (simp add: binary64_pow_example_def ceiling_eq_iff)
  let ?ls = "map (\<lambda>(p_min, p_max). linspace p_min p_max 11) ?ext"
  have s: "sample binary64_pow_example ?ext (PyInt 100000) ''uniform'' =
             Inr (squeeze (length ?ext) (meshgrid_points ?ls))"
    using sample_uniform [of ?ext 100000 binary64_pow_example 11] k by simp
  have "\<And>l. l \<in> set ?ls \<Longrightarrow> length l = 11"
    by (auto simp: length_linspace)
  then have "length (meshgrid_points ?ls) = 11 ^ length ?ls"
    by (rule length_meshgrid_points)
  then have l: "length (meshgrid_points ?ls) = 161051" by simp
  have "squeeze (length ?ext) (meshgrid_points ?ls) = Arr2 (meshgrid_points ?ls)"
    using l by (simp add: squeeze_def)
  with s l show ?thesis by (simp add: root_5_100000)
qed

text \<open>
  Claim C10. \<^verbatim>\<open>sample\<close> squeezes whatever it computed. For one sample there is one grid
  point, made of the lower bounds; what is returned is that point without the axis of
  length one: a 0-dimensional array when the space has one dimension, and the vector of
  the \<open>dim\<close> lower bounds when it has more, never a sequence of length one or a matrix with
  one row. The hypothesis is the value \<^verbatim>\<open>1.0\<close> of \<^verbatim>\<open>1 ** y\<close>, which floating point
  arithmetic returns for every \<open>y\<close>.
\<close>

theorem sample_single_point:
  assumes "float_pow 1 (1 / real (length extends)) = 1"
  shows "(length extends = 1 \<longrightarrow>
            sample float_pow extends (PyInt 1) ''uniform'' = Inr (Arr0 (fst (hd extends)))) \<and>
         (1 < length extends \<longrightarrow>
            sample float_pow extends (PyInt 1) ''uniform'' = Inr (Arr1 (map fst extends)))"
proof (cases "extends = []")
  case True
  then show ?thesis by simp
next
  case False
  have k: "\<lceil>float_pow (of_int 1) (1 / real (length extends))\<rceil> = int 1"
    using assms by simp
  have "map (\<lambda>(p_min, p_max). linspace p_min p_max 1) extends = map (\<lambda>x. [x]) (map fst extends)"
    by (simp add: linspace_def case_prod_beta)
  then have "meshgrid_points (map (\<lambda>(p_min, p_max). linspace p_min p_max 1) extends)
               = [map fst extends]"
    by (simp only: meshgrid_points_singletons)
  moreover have "sample float_pow extends (PyInt 1) ''uniform'' =
           Inr (squeeze (length extends)
                  (meshgrid_points (map (\<lambda>(p_min, p_max). linspace p_min p_max 1) extends)))"
    using sample_uniform [of extends 1 float_pow 1] False k by simp
  ultimately have "sample float_pow extends (PyInt 1) ''uniform'' =
           Inr (squeeze (length extends) [map fst extends])"
    by simp
  then show ?thesis using False by (auto simp: squeeze_def hd_map)
qed

theorem sample_single_point_witness:
  "sample (powr) [(2, 3)] (PyInt 1) ''uniform'' = Inr (Arr0 2) \<and>
   sample (powr) [(2, 3), (4, 5), (6, 7)] (PyInt 1) ''uniform'' = Inr (Arr1 [2, 4, 6])"
  using sample_single_point [of "(powr)" "[(2, 3)]"]
    sample_single_point [of "(powr)" "[(2, 3), (4, 5), (6, 7)]"]
  by simp

subsection \<open>Registration\<close>

lemma register_sequentially_spec:
  assumes "register_sequentially reg ref reuse sols i vfs trace = (trace', out)"
    and "i = length vfs"
  shows "length out = length vfs + length sols \<and> take (length vfs) out = vfs \<and>
         (\<forall>k<length sols.
            out ! (length vfs + k) =
              perform_single_registration reg ref (sols ! k)
                (if reuse \<and> 0 < length vfs + k then Some (out ! (length vfs + k - 1)) else None)) \<and>
         trace' = trace @ map (\<lambda>k. Registration (fst (sols ! k))
                    (if reuse \<and> 0 < length vfs + k then Some (out ! (length vfs + k - 1)) else None))
                  [0..<length sols]"
  using assms
proof (induction sols arbitrary: i vfs trace)
  case Nil
  then show ?case by simp
next
  case (Cons s rest)
  obtain mu u where s: "s = (mu, u)" by (cases s)
  let ?init = "if reuse \<and> i > 0 then Some (last vfs) else None"
  let ?v = "perform_single_registration reg ref (mu, u) ?init"
  from Cons.prems s have rec: "register_sequentially reg ref reuse rest (i + 1) (vfs @ [?v])
          (trace @ [Registration mu ?init]) = (trace', out)"
    by (simp add: Let_def)
  have len: "i + 1 = length (vfs @ [?v])" using Cons.prems(2) by simp
  note ih = Cons.IH [OF rec len]
  from ih have l: "length out = length vfs + length (s # rest)" by simp
  from ih have tk: "take (length vfs + 1) out = vfs @ [?v]" by simp
  have tk0: "take (length vfs) out = vfs"
  proof -
    have "take (length vfs) (take (length vfs + 1) out) = take (length vfs) (vfs @ [?v])"
      by (simp only: tk)
    then show ?thesis by (simp add: min_def)
  qed
  have at: "out ! length vfs = ?v"
  proof -
    have "out ! length vfs = take (length vfs + 1) out ! length vfs" by simp
    also have "\<dots> = ?v" by (simp only: tk nth_append_length)
    finally show ?thesis .
  qed
  have lastv: "vfs \<noteq> [] \<Longrightarrow> last vfs = out ! (length vfs - 1)"
  proof -
    assume ne: "vfs \<noteq> []"
    then have "length vfs - 1 < length vfs" by simp
    then have "out ! (length vfs - 1) = take (length vfs) out ! (length vfs - 1)" by simp
    also have "\<dots> = vfs ! (length vfs - 1)" by (simp only: tk0)
    also have "\<dots> = last vfs" using ne by (simp add: last_conv_nth)
    finally show ?thesis by simp
  qed
  have init: "?init = (if reuse \<and> 0 < length vfs + 0 then Some (out ! (length vfs + 0 - 1)) else None)"
    using Cons.prems(2) lastv by auto
  let ?g = "\<lambda>k. if reuse \<and> 0 < length vfs + k then Some (out ! (length vfs + k - 1)) else None"
  have step: "\<forall>k<length rest. out ! (length vfs + Suc k) =
        perform_single_registration reg ref (rest ! k) (?g (Suc k))"
    using ih by simp
  have all: "\<forall>k<length (s # rest). out ! (length vfs + k) =
        perform_single_registration reg ref ((s # rest) ! k) (?g k)"
  proof (intro allI impI)
    fix k assume "k < length (s # rest)"
    then show "out ! (length vfs + k) = perform_single_registration reg ref ((s # rest) ! k) (?g k)"
    proof (cases k)
      case 0
      then show ?thesis using at init s by simp
    next
      case (Suc k')
      with \<open>k < length (s # rest)\<close> have "k' < length rest" by simp
      with step Suc show ?thesis by simp
    qed
  qed
  have tr: "trace' = (trace @ [Registration mu ?init]) @
              map (\<lambda>k. Registration (fst (rest ! k)) (?g (Suc k))) [0..<length rest]"
    using ih by simp
  have "map (\<lambda>k. Registration (fst ((s # rest) ! k)) (?g k)) [0..<length (s # rest)]
          = Registration (fst ((s # rest) ! 0)) (?g 0) #
            map (\<lambda>k. Registration (fst ((s # rest) ! Suc k)) (?g (Suc k))) [0..<length rest]"
    by (simp only: length_Cons map_upt_Suc)
  then have "map (\<lambda>k. Registration (fst ((s # rest) ! k)) (?g k)) [0..<length (s # rest)]
          = Registration mu (?g 0) # map (\<lambda>k. Registration (fst (rest ! k)) (?g (Suc k))) [0..<length rest]"
    using s by simp
  with tr init have tr': "trace' = trace @ map (\<lambda>k. Registration (fst ((s # rest) ! k)) (?g k)) [0..<length (s # rest)]"
    by simp
  from l tk0 all tr' show ?case by blast
qed

text \<open>
  Claim C3, amended. Without a cache file, \<^verbatim>\<open>register_full_solutions\<close> runs one
  registration per full solution, in their order. The initial guess of registration \<open>k\<close>
  is the velocity field that registration \<open>k - 1\<close> returned if \<open>num_workers \<le> 1\<close>,
  \<^verbatim>\<open>reuse_vector_fields\<close> is set and \<open>k \<ge> 1\<close>, and \<^verbatim>\<open>None\<close> in every other case: for the
  first registration, without reuse, and for every registration when \<open>num_workers > 1\<close>,
  where asking for reuse only adds a warning to the trace. The sequential branch is the
  \<^verbatim>\<open>else\<close> of the test \<open>num_workers > 1\<close>, so it is also taken for a worker count of
  zero or less.
\<close>

theorem register_full_solutions_initial_guess:
  assumes "register_full_solutions reg ref sols num_workers None reuse trace = (trace', vfs)"
  shows "length vfs = length sols \<and>
         (\<forall>k<length sols.
            vfs ! k = perform_single_registration reg ref (sols ! k)
                        (if num_workers \<le> 1 \<and> reuse \<and> 1 \<le> k then Some (vfs ! (k - 1)) else None)) \<and>
         trace' = trace @ (if 1 < num_workers \<and> reuse then [LogWarning] else []) @
                    map (\<lambda>k. Registration (fst (sols ! k))
                           (if num_workers \<le> 1 \<and> reuse \<and> 1 \<le> k then Some (vfs ! (k - 1)) else None))
                      [0..<length sols]"
proof (cases "1 < num_workers")
  case True
  with assms have v: "vfs = map (\<lambda>input. perform_single_registration reg ref input None) sols"
    and t: "trace' = trace @ (if reuse then [LogWarning] else []) @ map (\<lambda>(mu, u). Registration mu None) sols"
    by (auto simp: register_full_solutions_def Let_def)
  have "map (\<lambda>(mu, u). Registration mu None) sols = map (\<lambda>k. Registration (fst (sols ! k)) None) [0..<length sols]"
    by (rule nth_equalityI) (simp_all add: case_prod_beta)
  with True v t show ?thesis by simp
next
  case False
  with assms have "register_sequentially reg ref reuse sols 0 [] trace = (trace', vfs)"
    by (simp add: register_full_solutions_def)
  from register_sequentially_spec [OF this] False show ?thesis
    by (simp add: Suc_le_eq cong: map_cong)
qed

theorem register_full_solutions_initial_guess_witness:
  "register_full_solutions example_register 0 [(1::nat, 10), (2, 20), (3, 30)] 1 None True []
     = ([Registration 1 None, Registration 2 (Some 10), Registration 3 (Some 30)], [10, 30, 60]) \<and>
   register_full_solutions example_register 0 [(1::nat, 10), (2, 20), (3, 30)] 4 None True []
     = ([LogWarning, Registration 1 None, Registration 2 None, Registration 3 None], [10, 20, 30])"
proof -
  have a: "register_full_solutions example_register 0 [(1::nat, 10), (2, 20), (3, 30)] 1 None True []
     = ([Registration 1 None, Registration 2 (Some 10), Registration 3 (Some 30)], [10, 30, 60])"
    by (simp add: register_full_solutions_def perform_single_registration_def example_register_def)
  have b: "register_full_solutions example_register 0 [(1::nat, 10), (2, 20), (3, 30)] 4 None True []
     = ([LogWarning, Registration 1 None, Registration 2 None, Registration 3 None], [10, 20, 30])"
    by (simp add: register_full_solutions_def perform_single_registration_def example_register_def)
  from register_full_solutions_initial_guess [OF a] a b show ?thesis by simp
qed

text \<open>
  The claim as it was stated reserves the reuse for \<open>num_workers = 1\<close>. With
  \<open>num_workers = 0\<close> the second registration is given the field \<open>10\<close> that the first one
  returned.
\<close>

theorem register_full_solutions_initial_guess_counterexample:
  "register_full_solutions example_register 0 [(1::nat, 10), (2, 20)] 0 None True []
     = ([Registration 1 None, Registration 2 (Some 10)], [10, 30])"
  by (simp add: register_full_solutions_def perform_single_registration_def example_register_def)

subsection \<open>Reduced coefficients\<close>

lemma reduced_coefficients_entry:
  assumes "reduced_coefficients snapshot_matrix reduced_velocity_fields = Inr coefficients"
    and "i < length snapshot_matrix" and "j < length reduced_velocity_fields"
  shows "coefficients ! i ! j = dot (snapshot_matrix ! i) (reduced_velocity_fields ! j)"
  using assms by (auto simp: reduced_coefficients_def split: if_splits)

text \<open>
  Claim C1. The coefficients of a training velocity field are meant to be its inner
  products with the basis vectors under the product operator that was handed to the
  decomposition. \<^verbatim>\<open>reduce\<close> takes the plain Euclidean dot product instead. For one
  velocity field \<open>[1]\<close>, the product operator that multiplies by four and the basis vector
  \<open>[1/2]\<close>, which has norm one under this product, the code computes the coefficient
  \<open>1/2\<close> and the inner product under the operator is \<open>2\<close>.
\<close>

theorem reduced_coefficients_euclidean:
  "reduced_coefficients [[1]] [[1 / 2]] = Inr [[1 / 2]] \<and>
   spec_coefficient (map ((*) 4)) [1] [1 / 2] = 2"
  by (simp add: reduced_coefficients_def spec_coefficient_def dot_def)

subsection \<open>The validation split\<close>

lemma split_index_div: "split_index n = n div 10"
proof -
  have "(0.1::real) * real n = real n / real 10" by simp
  then have "\<lfloor>(0.1::real) * real n\<rfloor> = int (n div 10)"
    by (simp only: floor_divide_of_nat_eq)
  then show ?thesis by (simp add: split_index_def)
qed

text \<open>
  Claim C5, amended. For a shuffled list of \<open>n\<close> pairs the validation data are the first
  \<open>\<lfloor>0.1 n\<rfloor> + 1\<close> elements and the training data the elements from index
  \<open>\<lfloor>0.1 n\<rfloor> + 2\<close> on, where \<open>\<lfloor>0.1 n\<rfloor> = n div 10\<close>. For \<open>n \<ge> 2\<close> the element at index
  \<open>\<lfloor>0.1 n\<rfloor> + 1\<close> exists and is the only one in neither part: the list is the validation
  data, that element, and the training data, in this order. For \<open>n \<le> 1\<close> nothing is left
  out: the validation data are the whole list and the training data are empty.
\<close>

theorem validation_split:
  "validation_slice xs = take (length xs div 10 + 1) xs \<and>
   training_slice xs = drop (length xs div 10 + 2) xs \<and>
   (2 \<le> length xs \<longrightarrow>
      length xs div 10 + 1 < length xs \<and>
      xs = validation_slice xs @ [xs ! (length xs div 10 + 1)] @ training_slice xs) \<and>
   (length xs \<le> 1 \<longrightarrow> validation_slice xs = xs \<and> training_slice xs = [])"
proof -
  let ?k = "length xs div 10"
  have v: "validation_slice xs = take (?k + 1) xs"
    by (simp add: validation_slice_def split_index_div)
  have t: "training_slice xs = drop (?k + 2) xs"
    by (simp add: training_slice_def split_index_div)
  have big: "length xs div 10 + 1 < length xs \<and>
      xs = validation_slice xs @ [xs ! (?k + 1)] @ training_slice xs" if "2 \<le> length xs"
  proof -
    from that have lt: "?k + 1 < length xs" by linarith
    have "xs = take (?k + 1) xs @ drop (?k + 1) xs" by simp
    also have "drop (?k + 1) xs = xs ! (?k + 1) # drop (Suc (?k + 1)) xs"
      using lt by (rule Cons_nth_drop_Suc [symmetric])
    finally have "xs = take (?k + 1) xs @ [xs ! (?k + 1)] @ drop (?k + 2) xs" by simp
    with lt v t show ?thesis by simp
  qed
  have small: "validation_slice xs = xs \<and> training_slice xs = []" if "length xs \<le> 1"
    using that v t by simp
  from v t big small show ?thesis by blast
qed

theorem validation_split_witness:
  "validation_slice [10, 20, 30::nat] = [10] \<and> training_slice [10, 20, 30::nat] = [30] \<and>
   [10, 20, 30::nat] = validation_slice [10, 20, 30] @ [[10, 20, 30] ! 1] @ training_slice [10, 20, 30]"
  using validation_split [of "[10, 20, 30::nat]"] by simp

text \<open>
  The claim as it was stated fails for a single training pair: the validation data hold
  the pair, the training data are empty, and there is no element at index
  \<open>\<lfloor>0.1 n\<rfloor> + 1 = 1\<close> that could be left out.
\<close>

theorem validation_split_counterexample:
  "validation_slice [10::nat] = [10] \<and> training_slice [10::nat] = [] \<and>
   \<not> split_index (length [10::nat]) + 1 < length [10::nat]"
  by (simp add: validation_slice_def training_slice_def split_index_def)

subsection \<open>Normalisation\<close>

lemma np_roundtrip:
  "b \<noteq> a \<Longrightarrow> np_add (np_multiply (np_true_divide (x - a) (b - a)) (b - a)) a = Finite x"
  by (simp add: np_true_divide_def)

text \<open>
  Claim C6. After \<^verbatim>\<open>compute_normalization\<close> has set bounds with
  \<open>max_output \<noteq> min_output\<close>, \<^verbatim>\<open>normalize_output\<close> returns a tensor for every tensor \<open>x\<close>
  of finite numbers, and \<^verbatim>\<open>denormalize_output\<close> maps that tensor back to \<open>x\<close>.
\<close>

theorem denormalize_normalize_output:
  assumes "compute_normalization training_data validation_data = Inr s"
    and "max_output s \<noteq> min_output s"
  shows "\<exists>y. normalize_output (Some s) x = Inr y \<and>
             denormalize_output (Some s) y = Inr (map Finite x)"
proof -
  have "denormalize_output (Some s)
          (map (\<lambda>x. np_true_divide (x - min_output s) (max_output s - min_output s)) x)
        = Inr (map Finite x)"
    using assms(2) by (simp add: denormalize_output_def np_roundtrip o_def)
  then show ?thesis by (simp add: normalize_output_def)
qed

theorem denormalize_normalize_output_witness:
  "compute_normalization [([1], [2])] [([3], [6])]
     = Inr \<lparr>min_input = 1, max_input = 3, min_output = 2, max_output = 6\<rparr> \<and>
   (\<exists>y. normalize_output (Some \<lparr>min_input = 1, max_input = 3, min_output = 2, max_output = 6\<rparr>) [4]
          = Inr y \<and>
        denormalize_output (Some \<lparr>min_input = 1, max_input = 3, min_output = 2, max_output = 6\<rparr>) y
          = Inr [Finite 4])"
proof -
  have c: "compute_normalization [([1], [2])] [([3], [6])]
     = Inr \<lparr>min_input = 1, max_input = 3, min_output = 2, max_output = 6\<rparr>"
    by (simp add: compute_normalization_def np_min_def np_max_def)
  show ?thesis
    using c denormalize_normalize_output [OF c, of "[4]"] by simp
qed

text \<open>
  Claim C7, amended. When the bounds satisfy \<open>max_input = min_input\<close>,
  \<^verbatim>\<open>normalize_input\<close> divides by zero without a guard and raises nothing: it returns to
  its caller the outcome of the division, which is \<open>NaN\<close> for an entry equal to
  \<open>min_input\<close>, the positive infinity for a larger and the negative infinity for a smaller
  entry, and never a finite number.
\<close>

theorem normalize_input_zero_range:
  assumes "max_input s = min_input s"
  shows "normalize_input (Some s) data =
           Inr (map (\<lambda>x. if x = min_input s then NaN
                          else if x > min_input s then PosInf else NegInf) data)"
  using assms by (simp add: normalize_input_def np_true_divide_def)

theorem normalize_input_zero_range_witness:
  "normalize_input (Some \<lparr>min_input = 1, max_input = 1, min_output = 0, max_output = 1\<rparr>) [1, 2, 0]
     = Inr [NaN, PosInf, NegInf]"
  using normalize_input_zero_range
          [of "\<lparr>min_input = 1, max_input = 1, min_output = 0, max_output = 1\<rparr>" "[1, 2, 0]"]
  by simp

text \<open>
  The claim as it was stated asks for a failure that reaches the caller. With both bounds
  equal to \<open>1\<close> the parameter \<open>1\<close> is normalised to the value \<open>NaN\<close>, returned like any
  other result.
\<close>

theorem normalize_input_zero_range_counterexample:
  "normalize_input (Some \<lparr>min_input = 1, max_input = 1, min_output = 0, max_output = 1\<rparr>) [1]
     = Inr [NaN]"
  by (simp add: normalize_input_def np_true_divide_def)

subsection \<open>Training with restarts\<close>

lemma float_gt_not_nan: "float_gt x y \<Longrightarrow> x \<noteq> NaN \<and> y \<noteq> NaN"
  by (cases x; cases y) simp_all

lemma float_gt_irrefl: "\<not> float_gt x x"
  by (cases x) simp_all

lemma float_gt_below: "float_gt b a \<Longrightarrow> \<not> float_gt b c \<Longrightarrow> \<not> float_gt a c"
  by (cases a; cases b; cases c) simp_all

lemma float_gt_above: "float_gt b a \<Longrightarrow> \<not> float_gt b c \<Longrightarrow> c \<noteq> NaN \<Longrightarrow> float_gt c a"
  by (cases a; cases b; cases c) simp_all

lemma restarts_loop_raise:
  fixes trace :: "('p, 'vf) event list" and best :: "'net option \<times> npfloat option"
  assumes "a \<le> m" and "m < b" and "tr m layers td vd = Inl e"
    and "\<forall>i. a \<le> i \<and> i < m \<longrightarrow> (\<exists>r. tr i layers td vd = Inr r)"
  shows "restarts_loop tr layers td vd [a..<b] best trace
           = (trace @ replicate (m - a + 1) (TrainCall layers), Inl e)"
  using assms
proof (induction "m - a" arbitrary: a best trace)
  case 0
  then have "a = m" by simp
  with 0 have "[a..<b] = m # [Suc m..<b]" by (simp add: upt_conv_Cons)
  with \<open>a = m\<close> 0 show ?case by (simp add: train_neural_network_def)
next
  case (Suc d)
  then have lt: "a < m" by simp
  with Suc have up: "[a..<b] = a # [Suc a..<b]" by (simp add: upt_conv_Cons)
  from Suc.prems lt obtain r where r: "tr a layers td vd = Inr r" by blast
  obtain nn loss where nl: "r = (nn, loss)" by (cases r)
  have d: "d = m - Suc a" using Suc.hyps(2) by simp
  have rest: "restarts_loop tr layers td vd [Suc a..<b] best' trace'
           = (trace' @ replicate (m - Suc a + 1) (TrainCall layers), Inl e)"
    for best' :: "'net option \<times> npfloat option" and trace' :: "('p, 'vf) event list"
    by (rule Suc.hyps(1) [OF d]) (use Suc.prems lt in auto)
  have "m - a + 1 = Suc (m - Suc a + 1)" using lt by simp
  then show ?case
    by (simp add: up r nl train_neural_network_def rest)
qed

lemma restarts_loop_best:
  assumes "\<forall>i. a \<le> i \<and> i < b \<longrightarrow> tr i layers td vd = Inr (net i, loss i)"
    and "a \<le> b" and "j < a" and "loss j \<noteq> NaN"
    and "\<forall>i<a. loss i \<noteq> NaN \<longrightarrow> \<not> float_gt (loss j) (loss i)"
    and "\<forall>i<j. loss i \<noteq> NaN \<longrightarrow> float_gt (loss i) (loss j)"
  shows "\<exists>j'<b. restarts_loop tr layers td vd [a..<b] (Some (net j), Some (loss j)) trace
                  = (trace @ replicate (b - a) (TrainCall layers), Inr (Some (net j'), Some (loss j'))) \<and>
               loss j' \<noteq> NaN \<and>
               (\<forall>i<b. loss i \<noteq> NaN \<longrightarrow> \<not> float_gt (loss j') (loss i)) \<and>
               (\<forall>i<j'. loss i \<noteq> NaN \<longrightarrow> float_gt (loss i) (loss j'))"
  using assms
proof (induction "b - a" arbitrary: a j trace)
  case 0
  then have "a = b" by simp
  with 0 show ?case by auto
next
  case (Suc d)
  then have lt: "a < b" by simp
  then have up: "[a..<b] = a # [Suc a..<b]" by (simp add: upt_conv_Cons)
  have out: "tr a layers td vd = Inr (net a, loss a)" using Suc.prems(1) lt by simp
  have d: "d = b - Suc a" using Suc.hyps(2) by simp
  have later: "\<forall>i. Suc a \<le> i \<and> i < b \<longrightarrow> tr i layers td vd = Inr (net i, loss i)"
    using Suc.prems(1) by simp
  have le: "Suc a \<le> b" using lt by simp
  have cnt: "b - a = Suc (b - Suc a)" using lt by simp
  show ?case
  proof (cases "float_gt (loss j) (loss a)")
    case True
    then have nn: "loss a \<noteq> NaN" using float_gt_not_nan by blast
    have i1: "\<forall>i<Suc a. loss i \<noteq> NaN \<longrightarrow> \<not> float_gt (loss a) (loss i)"
    proof (intro allI impI)
      fix i assume "i < Suc a" and "loss i \<noteq> NaN"
      show "\<not> float_gt (loss a) (loss i)"
      proof (cases "i = a")
        case True
        then show ?thesis by (simp add: float_gt_irrefl)
      next
        case False
        with \<open>i < Suc a\<close> have "i < a" by simp
        with Suc.prems(5) \<open>loss i \<noteq> NaN\<close> have "\<not> float_gt (loss j) (loss i)" by simp
        with True show ?thesis by (rule float_gt_below)
      qed
    qed
    have i2: "\<forall>i<a. loss i \<noteq> NaN \<longrightarrow> float_gt (loss i) (loss a)"
    proof (intro allI impI)
      fix i assume "i < a" and n: "loss i \<noteq> NaN"
      with Suc.prems(5) have "\<not> float_gt (loss j) (loss i)" by simp
      with True show "float_gt (loss i) (loss a)" using n by (rule float_gt_above)
    qed
    from Suc.hyps(1) [OF d later le _ nn i1 i2, of "trace @ [TrainCall layers]"]
    obtain j' where "j' < b"
      and "restarts_loop tr layers td vd [Suc a..<b] (Some (net a), Some (loss a)) (trace @ [TrainCall layers])
             = ((trace @ [TrainCall layers]) @ replicate (b - Suc a) (TrainCall layers),
                Inr (Some (net j'), Some (loss j')))"
      and "loss j' \<noteq> NaN"
      and "\<forall>i<b. loss i \<noteq> NaN \<longrightarrow> \<not> float_gt (loss j') (loss i)"
      and "\<forall>i<j'. loss i \<noteq> NaN \<longrightarrow> float_gt (loss i) (loss j')"
      by auto
    with True show ?thesis
      by (intro exI [of _ j'])
         (simp add: up out train_neural_network_def cnt)
  next
    case False
    have i1: "\<forall>i<Suc a. loss i \<noteq> NaN \<longrightarrow> \<not> float_gt (loss j) (loss i)"
      using Suc.prems(5) False by (auto simp: less_Suc_eq)
    have ja: "j < Suc a" using Suc.prems(3) by simp
    from Suc.hyps(1) [OF d later le ja Suc.prems(4) i1 Suc.prems(6), of "trace @ [TrainCall layers]"]
    obtain j' where "j' < b"
      and "restarts_loop tr layers td vd [Suc a..<b] (Some (net j), Some (loss j)) (trace @ [TrainCall layers])
             = ((trace @ [TrainCall layers]) @ replicate (b - Suc a) (TrainCall layers),
                Inr (Some (net j'), Some (loss j')))"
      and "loss j' \<noteq> NaN"
      and "\<forall>i<b. loss i \<noteq> NaN \<longrightarrow> \<not> float_gt (loss j') (loss i)"
      and "\<forall>i<j'. loss i \<noteq> NaN \<longrightarrow> float_gt (loss i) (loss j')"
      by auto
    with False show ?thesis
      by (intro exI [of _ j'])
         (simp add: up out train_neural_network_def cnt)
  qed
qed

text \<open>
  Claim C2, amended. \<^verbatim>\<open>multiple_restarts_training\<close> catches nothing. If the training of
  restart \<open>m\<close> raises after the restarts before it have returned, the call raises the same
  exception after \<open>m + 1\<close> trainings; the later restarts do not run and no network is
  returned. If \<open>restarts \<ge> 1\<close>, no training raises and the loss of the first restart is
  not \<open>NaN\<close>, all restarts run and the call returns the network and the loss of a restart
  \<open>j\<close> whose loss is a number, is not greater than the loss of any restart with a numeric
  loss, and is smaller than the numeric losses of all restarts before \<open>j\<close>: the earliest
  restart with the lowest loss, where a restart with the loss \<open>NaN\<close> is never chosen.
\<close>

theorem multiple_restarts_training_result:
  "(m < nat restarts \<and> tr m layers td vd = Inl e \<and> (\<forall>i<m. \<exists>r. tr i layers td vd = Inr r) \<longrightarrow>
      multiple_restarts_training tr td vd layers restarts trace
        = (trace @ replicate (m + 1) (TrainCall layers), Inl e)) \<and>
   (0 < restarts \<and> (\<forall>i<nat restarts. tr i layers td vd = Inr (net i, loss i)) \<and> loss 0 \<noteq> NaN \<longrightarrow>
      (\<exists>j<nat restarts.
         multiple_restarts_training tr td vd layers restarts trace
           = (trace @ replicate (nat restarts) (TrainCall layers),
              Inr (Some (net j), Some (loss j))) \<and>
         loss j \<noteq> NaN \<and>
         (\<forall>i<nat restarts. loss i \<noteq> NaN \<longrightarrow> \<not> float_gt (loss j) (loss i)) \<and>
         (\<forall>i<j. loss i \<noteq> NaN \<longrightarrow> float_gt (loss i) (loss j))))"
proof (intro conjI impI)
  assume "m < nat restarts \<and> tr m layers td vd = Inl e \<and> (\<forall>i<m. \<exists>r. tr i layers td vd = Inr r)"
  then have "restarts_loop tr layers td vd [0..<nat restarts] (None, None) trace
           = (trace @ replicate (m - 0 + 1) (TrainCall layers), Inl e)"
    by (intro restarts_loop_raise) auto
  then show "multiple_restarts_training tr td vd layers restarts trace
        = (trace @ replicate (m + 1) (TrainCall layers), Inl e)"
    by (simp add: multiple_restarts_training_def)
next
  assume a: "0 < restarts \<and> (\<forall>i<nat restarts. tr i layers td vd = Inr (net i, loss i)) \<and> loss 0 \<noteq> NaN"
  let ?b = "nat restarts"
  from a have pos: "0 < ?b" by simp
  then have up: "[0..<?b] = 0 # [Suc 0..<?b]" by (simp add: upt_conv_Cons)
  from a pos have out0: "tr 0 layers td vd = Inr (net 0, loss 0)" by simp
  have first: "restarts_loop tr layers td vd [0..<?b] (None, None) trace
          = restarts_loop tr layers td vd [Suc 0..<?b] (Some (net 0), Some (loss 0))
              (trace @ [TrainCall layers])"
    by (simp add: up out0 train_neural_network_def)
  have "\<exists>j'<?b. restarts_loop tr layers td vd [Suc 0..<?b] (Some (net 0), Some (loss 0))
                    (trace @ [TrainCall layers])
                  = ((trace @ [TrainCall layers]) @ replicate (?b - Suc 0) (TrainCall layers),
                     Inr (Some (net j'), Some (loss j'))) \<and>
               loss j' \<noteq> NaN \<and>
               (\<forall>i<?b. loss i \<noteq> NaN \<longrightarrow> \<not> float_gt (loss j') (loss i)) \<and>
               (\<forall>i<j'. loss i \<noteq> NaN \<longrightarrow> float_gt (loss i) (loss j'))"
    by (rule restarts_loop_best) (use a pos in \<open>auto simp: float_gt_irrefl\<close>)
  then obtain j where j: "j < ?b"
      and run: "restarts_loop tr layers td vd [Suc 0..<?b] (Some (net 0), Some (loss 0))
                    (trace @ [TrainCall layers])
                  = ((trace @ [TrainCall layers]) @ replicate (?b - Suc 0) (TrainCall layers),
                     Inr (Some (net j), Some (loss j)))"
      and rest: "loss j \<noteq> NaN" "\<forall>i<?b. loss i \<noteq> NaN \<longrightarrow> \<not> float_gt (loss j) (loss i)"
        "\<forall>i<j. loss i \<noteq> NaN \<longrightarrow> float_gt (loss i) (loss j)"
    by blast
  have "(trace @ [TrainCall layers]) @ replicate (?b - Suc 0) (TrainCall layers)
          = trace @ replicate ?b (TrainCall layers)"
    using pos by (cases ?b) simp_all
  with first run have "multiple_restarts_training tr td vd layers restarts trace
           = (trace @ replicate ?b (TrainCall layers), Inr (Some (net j), Some (loss j)))"
    by (simp add: multiple_restarts_training_def)
  with j rest show "\<exists>j<nat restarts.
         multiple_restarts_training tr td vd layers restarts trace
           = (trace @ replicate (nat restarts) (TrainCall layers),
              Inr (Some (net j), Some (loss j))) \<and>
         loss j \<noteq> NaN \<and>
         (\<forall>i<nat restarts. loss i \<noteq> NaN \<longrightarrow> \<not> float_gt (loss j) (loss i)) \<and>
         (\<forall>i<j. loss i \<noteq> NaN \<longrightarrow> float_gt (loss i) (loss j))"
    by blast
qed

lemma upt_examples: "[0..<4] = [0, 1, 2, 3]" "[0..<2] = [0, 1]"
  by (simp_all add: upt_conv_Cons)

theorem multiple_restarts_training_result_witness:
  "multiple_restarts_training example_trainer () () [1, 20, 1] 4 ([] :: (real, real) event list)
     = ([TrainCall [1, 20, 1], TrainCall [1, 20, 1], TrainCall [1, 20, 1], TrainCall [1, 20, 1]],
        Inr (Some 2, Some (Finite 1))) \<and>
   multiple_restarts_training diverging_first () () [1, 20, 1] 3 ([] :: (real, real) event list)
     = ([TrainCall [1, 20, 1]], Inl TrainingError)"
proof -
  have ok: "0 < (4::int) \<and>
            (\<forall>i<nat 4. example_trainer i [1, 20, 1] () () = Inr (id i, example_losses i)) \<and>
            example_losses 0 \<noteq> NaN"
    by (simp add: example_trainer_def example_losses_def)
  have bad: "0 < nat 3 \<and> diverging_first 0 [1, 20, 1] () () = Inl TrainingError \<and>
             (\<forall>i<0. \<exists>r. diverging_first i [1, 20, 1] () () = Inr r)"
    by (simp add: diverging_first_def)
  have a: "multiple_restarts_training example_trainer () () [1, 20, 1] 4 ([] :: (real, real) event list)
     = ([TrainCall [1, 20, 1], TrainCall [1, 20, 1], TrainCall [1, 20, 1], TrainCall [1, 20, 1]],
        Inr (Some 2, Some (Finite 1)))"
    by (simp add: multiple_restarts_training_def train_neural_network_def example_trainer_def
          example_losses_def upt_examples)
  from multiple_restarts_training_result
         [where tr = diverging_first and m = 0 and restarts = 3 and layers = "[1, 20, 1]"
            and td = "()" and vd = "()" and e = TrainingError
            and trace = "[] :: (real, real) event list"]
       multiple_restarts_training_result
         [where tr = example_trainer and restarts = 4 and layers = "[1, 20, 1]"
            and td = "()" and vd = "()" and net = id and loss = example_losses
            and trace = "[] :: (real, real) event list"]
       ok bad a
  show ?thesis by simp
qed

text \<open>
  The claim as it was stated lets a failed restart drop out of the selection. When the
  first of two trainings raises, the call raises and the second training never runs; when
  the first of two trainings returns the loss \<open>NaN\<close>, its network is returned, because no
  loss compares as smaller than \<open>NaN\<close>.
\<close>

theorem multiple_restarts_training_result_counterexample:
  "multiple_restarts_training diverging_first () () [1, 20, 1] 2 ([] :: (real, real) event list)
     = ([TrainCall [1, 20, 1]], Inl TrainingError) \<and>
   multiple_restarts_training nan_first () () [1, 20, 1] 2 ([] :: (real, real) event list)
     = ([TrainCall [1, 20, 1], TrainCall [1, 20, 1]], Inr (Some 0, Some NaN))"
  by (simp add: multiple_restarts_training_def train_neural_network_def diverging_first_def
        nan_first_def upt_examples)

subsection \<open>\<^verbatim>\<open>reduce\<close>\<close>

lemma restarts_loop_trace:
  "set (fst (restarts_loop tr layers td vd is best trace)) \<subseteq> set trace \<union> {TrainCall layers}"
proof (induction "is" arbitrary: best trace)
  case Nil
  then show ?case by auto
next
  case (Cons i rest)
  show ?case
  proof (cases "train_neural_network tr i layers td vd")
    case (Inl e)
    then show ?thesis by auto
  next
    case (Inr r)
    obtain nn loss where "r = (nn, loss)" by (cases r)
    with Inr Cons.IH show ?thesis by (fastforce simp del: restarts_loop.simps(1))
  qed
qed

lemma multiple_restarts_training_trace:
  "multiple_restarts_training tr td vd layers restarts trace = (trace', r) \<Longrightarrow>
   set trace' \<subseteq> set trace \<union> {TrainCall layers}"
  using restarts_loop_trace [of tr layers td vd "[0..<nat restarts]" "(None, None)" trace]
  by (simp add: multiple_restarts_training_def)

lemma comprehension_Inr:
  "comprehension f xs = Inr ys \<Longrightarrow> list_all2 (\<lambda>x y. f x = Inr y) xs ys"
proof (induction xs arbitrary: ys)
  case Nil
  then show ?case by simp
next
  case (Cons x xs)
  then show ?case by (auto split: sum.splits)
qed

lemma compute_full_solutions_trace:
  "compute_full_solutions solve ts cache trace = (trace', sols) \<Longrightarrow>
   TrainCall layers \<in> set trace' \<Longrightarrow> TrainCall layers \<in> set trace"
  by (auto simp: compute_full_solutions_def split: option.splits)


lemma register_full_solutions_trace:
  assumes "register_full_solutions reg ref sols nw cache reuse trace = (trace', vfs)"
    and "TrainCall layers \<in> set trace'"
  shows "TrainCall layers \<in> set trace"
proof (cases cache)
  case (Some cached)
  with assms show ?thesis by (simp add: register_full_solutions_def)
next
  case None
  show ?thesis
  proof (cases "1 < nw")
    case True
    with None assms show ?thesis
      by (auto simp: register_full_solutions_def Let_def split: if_splits)
  next
    case False
    with None assms(1) have "register_sequentially reg ref reuse sols 0 [] trace = (trace', vfs)"
      by (simp add: register_full_solutions_def)
    from register_sequentially_spec [OF this] assms(2) show ?thesis by auto
  qed
qed

lemma reduce_assertions:
  assumes "\<not> (isinstance_int max_basis_size \<and> py_gt max_basis_size 0) \<or>
           \<not> (isinstance_int restarts \<and> py_gt restarts 0)"
  shows "reduce col reference_solution training_set max_basis_size return_all restarts hidden_layers
           num_workers full_solutions_file full_velocity_fields_file reuse_vector_fields trace
         = (trace, Inl AssertionError)"
proof (cases "isinstance_int max_basis_size \<and> py_gt max_basis_size 0")
  case False
  then show ?thesis by (simp add: reduce_def)
next
  case True
  with assms have "\<not> (isinstance_int restarts \<and> py_gt restarts 0)" by blast
  with True show ?thesis by (simp add: reduce_def)
qed

text \<open>
  Claim C8. The checks of the configuration come first. \<^verbatim>\<open>sample\<close> raises
  \<^verbatim>\<open>AssertionError\<close> for a mode other than \<^verbatim>\<open>'uniform'\<close> and for a number of samples that
  is not an integer or is below one, whatever the extents and the power operator are, so
  before any point is computed. \<^verbatim>\<open>reduce\<close> raises \<^verbatim>\<open>AssertionError\<close> when
  \<^verbatim>\<open>max_basis_size\<close> or \<^verbatim>\<open>restarts\<close> is not an integer or is not positive, whatever the
  collaborators are, and leaves the trace as it was: no full solution, registration,
  decomposition or training has been computed.
\<close>

theorem configuration_errors_first:
  "(mode \<noteq> ''uniform'' \<or> \<not> (isinstance_int num_samples \<and> py_ge num_samples 1) \<longrightarrow>
      sample float_pow extends num_samples mode = Inl AssertionError) \<and>
   (\<not> (isinstance_int max_basis_size \<and> py_gt max_basis_size 0) \<or>
    \<not> (isinstance_int restarts \<and> py_gt restarts 0) \<longrightarrow>
      reduce col reference_solution training_set max_basis_size return_all restarts hidden_layers
        num_workers full_solutions_file full_velocity_fields_file reuse_vector_fields trace
      = (trace, Inl AssertionError))"
proof (intro conjI impI)
  assume "mode \<noteq> ''uniform'' \<or> \<not> (isinstance_int num_samples \<and> py_ge num_samples 1)"
  then show "sample float_pow extends num_samples mode = Inl AssertionError"
    by (auto simp: sample_def)
next
  assume "\<not> (isinstance_int max_basis_size \<and> py_gt max_basis_size 0) \<or>
          \<not> (isinstance_int restarts \<and> py_gt restarts 0)"
  then show "reduce col reference_solution training_set max_basis_size return_all restarts
               hidden_layers num_workers full_solutions_file full_velocity_fields_file
               reuse_vector_fields trace
             = (trace, Inl AssertionError)"
    by (rule reduce_assertions)
qed

theorem configuration_errors_first_witness:
  "sample (powr) [] (PyInt 0) ''uniform'' = Inl AssertionError \<and>
   sample (powr) [(0, 1)] (PyFloat (1 / 2)) ''uniform'' = Inl AssertionError \<and>
   sample (powr) [(0, 1)] (PyInt 4) ''random'' = Inl AssertionError \<and>
   reduce example_collaborators 0 [Scalar 1, Scalar 2, Scalar 3] (PyInt 0) True (PyInt 2) [20] 1 None None True []
     = ([], Inl AssertionError) \<and>
   reduce example_collaborators 0 [Scalar 1, Scalar 2, Scalar 3] (PyInt 1) True (PyFloat 2) [20] 1 None None True []
     = ([], Inl AssertionError)"
  using configuration_errors_first
          [where mode = "''uniform''" and num_samples = "PyInt 0" and float_pow = "(powr)"
             and extends = "[]" and max_basis_size = "PyInt 0" and restarts = "PyInt 2"
             and col = example_collaborators and reference_solution = 0
             and training_set = "[Scalar 1, Scalar 2, Scalar 3]" and return_all = True and hidden_layers = "[20]"
             and num_workers = 1 and full_solutions_file = None
             and full_velocity_fields_file = None and reuse_vector_fields = True
             and trace = "[]"]
        configuration_errors_first
          [where mode = "''uniform''" and num_samples = "PyFloat (1 / 2)" and float_pow = "(powr)"
             and extends = "[(0, 1)]" and max_basis_size = "PyInt 1" and restarts = "PyFloat 2"
             and col = example_collaborators and reference_solution = 0
             and training_set = "[Scalar 1, Scalar 2, Scalar 3]" and return_all = True and hidden_layers = "[20]"
             and num_workers = 1 and full_solutions_file = None
             and full_velocity_fields_file = None and reuse_vector_fields = True
             and trace = "[]"]
        configuration_errors_first
          [where mode = "''random''" and num_samples = "PyInt 4" and float_pow = "(powr)"
             and extends = "[(0, 1)]" and max_basis_size = "PyInt 0" and restarts = "PyInt 2"
             and col = example_collaborators and reference_solution = 0
             and training_set = "[Scalar 1, Scalar 2, Scalar 3]" and return_all = True and hidden_layers = "[20]"
             and num_workers = 1 and full_solutions_file = None
             and full_velocity_fields_file = None and reuse_vector_fields = True
             and trace = "[]"]
  by simp

lemma normalize_data_pairs:
  assumes "normalize_data self data = Inr out" and "(i, c) \<in> set out"
  shows "\<exists>elem\<in>set data. normalize_input self (fst elem) = Inr i \<and>
                           normalize_output self (snd elem) = Inr c"
proof -
  let ?f = "\<lambda>elem. case normalize_input self (fst elem) of
                       Inl e \<Rightarrow> Inl e
                     | Inr a \<Rightarrow>
                         (case normalize_output self (snd elem) of
                            Inl e \<Rightarrow> Inl e
                          | Inr b \<Rightarrow> Inr (a, b))"
  from assms(1) have "comprehension ?f data = Inr out"
    by (simp add: normalize_data_def split: if_splits)
  then have all: "list_all2 (\<lambda>x y. ?f x = Inr y) data out" by (rule comprehension_Inr)
  from assms(2) obtain n where n: "n < length out" and at: "out ! n = (i, c)"
    by (auto simp: in_set_conv_nth)
  from all n have len: "n < length data" by (simp add: list_all2_lengthD)
  from all n at have "?f (data ! n) = Inr (i, c)"
    by (simp add: list_all2_conv_all_nth)
  then have "normalize_input self (fst (data ! n)) = Inr i \<and>
             normalize_output self (snd (data ! n)) = Inr c"
    by (auto split: sum.splits)
  with len show ?thesis by (intro bexI [of _ "data ! n"]) simp_all
qed

lemma normalize_input_length: "normalize_input self data = Inr i \<Longrightarrow> length i = length data"
  by (auto simp: normalize_input_def split: option.splits)

lemma reduced_coefficients_rows:
  assumes "reduced_coefficients snapshot_matrix reduced_velocity_fields = Inr coefficients"
  shows "length coefficients = length snapshot_matrix \<and>
         (\<forall>k<length snapshot_matrix.
            coefficients ! k = map (dot (snapshot_matrix ! k)) reduced_velocity_fields)"
  using assms by (auto simp: reduced_coefficients_def split: if_splits)

lemma np_stack_Inr: "np_stack arrays = Inr m \<Longrightarrow> m = arrays"
  by (auto simp: np_stack_def split: if_splits)

lemma example_run:
  "reduce example_collaborators 0 [Scalar 1, Scalar 2, Scalar 3] (PyInt 1) True (PyInt 2) [20] 1
     None None True []
     = ([FomSolve (Scalar 1), FomSolve (Scalar 2), FomSolve (Scalar 3),
         Registration (Scalar 1) None, Registration (Scalar 2) (Some [1]),
         Registration (Scalar 3) (Some [4]),
         PodCall, TrainCall [1, 20, 1], TrainCall [1, 20, 1]],
        Inr (\<lparr>rom_reference_solution = 0, rom_velocity_fields = [[1]], rom_neural_network = Some 0,
              rom_normalization = Some \<lparr>min_input = 1, max_input = 3, min_output = 1, max_output = 9\<rparr>\<rparr>,
             Some \<lparr>all_reduced_velocity_fields = [[1]], all_singular_values = [1],
                   all_full_velocity_fields = [[1], [4], [9]],
                   all_training_data = [([Finite 0], [Finite 0])],
                   all_validation_data = [([Finite 1], [Finite 1])],
                   all_best_loss = Some (Finite 0)\<rparr>))"
  by (simp add: reduce_def example_collaborators_def compute_full_solutions_def
        register_full_solutions_def perform_single_registration_def np_stack_def
        reduced_coefficients_def dot_def validation_slice_def training_slice_def split_index_def
        compute_normalization_def np_min_def np_max_def normalize_data_def normalize_input_def
        normalize_output_def np_true_divide_def multiple_restarts_training_def
        train_neural_network_def build_rom_def upt_examples Let_def torch_tensor_def)

lemma compute_full_solutions_parameters:
  assumes "compute_full_solutions solve training_set full_solutions_file trace = (trace1, sols)"
  shows "map fst sols = (case full_solutions_file of None \<Rightarrow> training_set | Some cached \<Rightarrow> map fst cached)"
  using assms by (auto simp: compute_full_solutions_def o_def split: option.splits)

text \<open>
  Claim C9, amended. In every call of \<^verbatim>\<open>reduce\<close>, whatever the training parameters and
  their dimension are, every network is built from layer sizes that start with the input
  width \<open>1\<close>, followed by the hidden layers and one output width. Every pair of the
  training and validation data that the call returns is the normalisation of the pair
  built for one position \<open>k\<close> of the full solutions: its input is the normalised tensor
  \<^verbatim>\<open>torch.Tensor([mu, ])\<close> of the training parameter \<open>mu\<close> at that position (a parameter
  of the cache file when one is given, else of the training set), its output the
  normalised coefficients of the velocity field at the same position. The input has as
  many entries as \<open>mu\<close> has coordinates: one for a number, \<open>dim\<close> for a parameter of a
  space of dimension \<open>dim\<close>, so only the inputs of scalar parameters fit the input layer.
  The shuffle is assumed to return elements of the list it is given.
\<close>

theorem reduce_training_inputs:
  fixes col :: "('s, 'vf, 'net) collaborators"
  assumes "\<forall>xs. set (shuffle col xs) \<subseteq> set xs"
    and "parameters = (case full_solutions_file of None \<Rightarrow> training_set
                       | Some cached \<Rightarrow> map fst cached)"
    and "reduce col reference_solution training_set max_basis_size return_all restarts hidden_layers
           num_workers full_solutions_file full_velocity_fields_file reuse_vector_fields []
         = (trace', r)"
  shows "(\<forall>layers_sizes. TrainCall layers_sizes \<in> set trace' \<longrightarrow>
            (\<exists>n. layers_sizes = [1] @ hidden_layers @ [n])) \<and>
         (\<forall>rom all i c. r = Inr (rom, Some all) \<and>
              (i, c) \<in> set (all_training_data all) \<union> set (all_validation_data all) \<longrightarrow>
            (\<exists>k. k < length parameters \<and> k < length (all_full_velocity_fields all) \<and>
                 normalize_input (rom_normalization rom) (torch_tensor [parameters ! k]) = Inr i \<and>
                 normalize_output (rom_normalization rom)
                   (map (dot (to_numpy col (all_full_velocity_fields all ! k)))
                      (all_reduced_velocity_fields all)) = Inr c \<and>
                 length i = length (parameter_entries (parameters ! k))))"
proof (cases "isinstance_int max_basis_size \<and> py_gt max_basis_size 0 \<and>
              isinstance_int restarts \<and> py_gt restarts 0")
  case False
  then have "\<not> (isinstance_int max_basis_size \<and> py_gt max_basis_size 0) \<or>
             \<not> (isinstance_int restarts \<and> py_gt restarts 0)"
    by blast
  then have "reduce col reference_solution training_set max_basis_size return_all restarts
               hidden_layers num_workers full_solutions_file full_velocity_fields_file
               reuse_vector_fields [] = ([], Inl AssertionError)"
    by (rule reduce_assertions)
  with assms(3) have "trace' = [] \<and> r = Inl AssertionError"
    by simp
  then show ?thesis by simp
next
  case True
  obtain trace1 :: "(parameter, 'vf) event list" and sols where cfs:
    "compute_full_solutions (fom_solve col) training_set full_solutions_file [] = (trace1, sols)"
    by (cases "compute_full_solutions (fom_solve col) training_set full_solutions_file
                 ([] :: (parameter, 'vf) event list)")
  have params: "map fst sols = parameters"
    using compute_full_solutions_parameters [OF cfs] assms(2) by simp
  obtain trace2 vfs where rfs:
    "register_full_solutions (register col) reference_solution sols num_workers
       full_velocity_fields_file reuse_vector_fields trace1 = (trace2, vfs)"
    by (cases "register_full_solutions (register col) reference_solution sols num_workers
                 full_velocity_fields_file reuse_vector_fields trace1")
  obtain rvf sv where pd: "pod col vfs (py_int max_basis_size) (cauchy_navier col) = (rvf, sv)"
    by (cases "pod col vfs (py_int max_basis_size) (cauchy_navier col)")
  have t2: "TrainCall layers_sizes \<notin> set (trace2 @ [PodCall])" for layers_sizes
    using compute_full_solutions_trace [OF cfs] register_full_solutions_trace [OF rfs] by auto
  have early: ?thesis if "trace' = trace2 @ [PodCall]" and "r = Inl e" for e
    using that t2 by simp
  show ?thesis
  proof (cases "np_stack (map (to_numpy col) vfs)")
    case (Inl e)
    with assms(3) True cfs rfs pd have "trace' = trace2 @ [PodCall]" and "r = Inl e"
      by (simp_all add: reduce_def)
    then show ?thesis by (rule early)
  next
    case sm: (Inr snapshot_matrix)
    then have snap: "snapshot_matrix = map (to_numpy col) vfs" by (rule np_stack_Inr)
    show ?thesis
    proof (cases "reduced_coefficients snapshot_matrix rvf")
      case (Inl e)
      with assms(3) True cfs rfs pd sm have "trace' = trace2 @ [PodCall]" and "r = Inl e"
        by (simp_all add: reduce_def)
      then show ?thesis by (rule early)
    next
      case co: (Inr coefficients)
      from reduced_coefficients_rows [OF co] snap
      have clen: "length coefficients = length vfs"
        and crow: "\<forall>k<length vfs. coefficients ! k = map (dot (to_numpy col (vfs ! k))) rvf"
        by simp_all
      define pairs where
        "pairs = map (\<lambda>((mu, u), coeff). (torch_tensor [mu], coeff)) (zip sols coefficients)"
      define shuffled where "shuffled = shuffle col pairs"
      have built: "\<exists>k. k < length parameters \<and> k < length vfs \<and>
                       fst elem = torch_tensor [parameters ! k] \<and>
                       snd elem = map (dot (to_numpy col (vfs ! k))) rvf"
        if "elem \<in> set shuffled" for elem
      proof -
        from that assms(1) have "elem \<in> set pairs"
          unfolding shuffled_def by blast
        then obtain k where k: "k < length pairs" and e: "elem = pairs ! k"
          by (auto simp: in_set_conv_nth)
        from k have ks: "k < length sols" and kc: "k < length coefficients"
          by (simp_all add: pairs_def)
        from ks params have kp: "k < length parameters" and pk: "fst (sols ! k) = parameters ! k"
          by (auto simp: nth_map [symmetric] simp del: nth_map)
        from e ks kc have "elem = (torch_tensor [fst (sols ! k)], coefficients ! k)"
          by (simp add: pairs_def case_prod_beta)
        with kp pk kc clen crow show ?thesis by auto
      qed
      show ?thesis
      proof (cases "compute_normalization (training_slice shuffled) (validation_slice shuffled)")
        case (Inl e)
        with assms(3) True cfs rfs pd sm co have "trace' = trace2 @ [PodCall]" and "r = Inl e"
          by (simp_all add: reduce_def shuffled_def pairs_def Let_def)
        then show ?thesis by (rule early)
      next
        case st: (Inr stats)
        show ?thesis
        proof (cases "normalize_data (Some stats) (training_slice shuffled)")
          case (Inl e)
          with assms(3) True cfs rfs pd sm co st have "trace' = trace2 @ [PodCall]" and "r = Inl e"
            by (simp_all add: reduce_def shuffled_def pairs_def Let_def)
          then show ?thesis by (rule early)
        next
          case tn: (Inr training_data_n)
          show ?thesis
          proof (cases "normalize_data (Some stats) (validation_slice shuffled)")
            case (Inl e)
            with assms(3) True cfs rfs pd sm co st tn
            have "trace' = trace2 @ [PodCall]" and "r = Inl e"
              by (simp_all add: reduce_def shuffled_def pairs_def Let_def)
            then show ?thesis by (rule early)
          next
            case vn: (Inr validation_data_n)
            let ?layers = "[1] @ hidden_layers @ [length (hd coefficients)]"
            obtain trace3 res where mrt:
              "multiple_restarts_training (train col) training_data_n validation_data_n ?layers
                 (py_int restarts) (trace2 @ [PodCall]) = (trace3, res)"
              by (cases "multiple_restarts_training (train col) training_data_n validation_data_n
                           ?layers (py_int restarts) (trace2 @ [PodCall])")
            from assms(3) True cfs rfs pd sm co st tn vn mrt
            have tr: "trace' = trace3"
              by (auto simp: reduce_def shuffled_def pairs_def Let_def split: sum.splits prod.splits)
            have layers: "\<forall>layers_sizes. TrainCall layers_sizes \<in> set trace' \<longrightarrow>
                            (\<exists>n. layers_sizes = [1] @ hidden_layers @ [n])"
              using multiple_restarts_training_trace [OF mrt] t2 tr by auto
            have data: "\<exists>k. k < length parameters \<and> k < length (all_full_velocity_fields all) \<and>
                 normalize_input (rom_normalization rom) (torch_tensor [parameters ! k]) = Inr i \<and>
                 normalize_output (rom_normalization rom)
                   (map (dot (to_numpy col (all_full_velocity_fields all ! k)))
                      (all_reduced_velocity_fields all)) = Inr c \<and>
                 length i = length (parameter_entries (parameters ! k))"
              if "r = Inr (rom, Some all)"
                and "(i, c) \<in> set (all_training_data all) \<union> set (all_validation_data all)"
              for rom all i c
            proof -
              from assms(3) True cfs rfs pd sm co st tn vn mrt that(1)
              have rn: "rom_normalization rom = Some stats"
                and td: "all_training_data all = training_data_n"
                and vd: "all_validation_data all = validation_data_n"
                and fv: "all_full_velocity_fields all = vfs"
                and rv: "all_reduced_velocity_fields all = rvf"
                by (auto simp: reduce_def shuffled_def pairs_def Let_def build_rom_def
                         split: sum.splits prod.splits if_splits)
              from that(2) td vd have "(i, c) \<in> set training_data_n \<or> (i, c) \<in> set validation_data_n"
                by simp
              then have "\<exists>elem\<in>set (training_slice shuffled) \<union> set (validation_slice shuffled).
                           normalize_input (Some stats) (fst elem) = Inr i \<and>
                           normalize_output (Some stats) (snd elem) = Inr c"
                using normalize_data_pairs [OF tn] normalize_data_pairs [OF vn] by blast
              moreover have "set (training_slice shuffled) \<union> set (validation_slice shuffled)
                               \<subseteq> set shuffled"
                using set_drop_subset set_take_subset
                by (fastforce simp: training_slice_def validation_slice_def)
              ultimately obtain elem where el: "elem \<in> set shuffled"
                and ni: "normalize_input (Some stats) (fst elem) = Inr i"
                and no: "normalize_output (Some stats) (snd elem) = Inr c"
                by blast
              from built [OF el] obtain k where k: "k < length parameters" "k < length vfs"
                and fe: "fst elem = torch_tensor [parameters ! k]"
                and se: "snd elem = map (dot (to_numpy col (vfs ! k))) rvf"
                by blast
              from ni fe have "length i = length (parameter_entries (parameters ! k))"
                by (simp add: normalize_input_length torch_tensor_def)
              with k fe se ni no rn fv rv show ?thesis by auto
            qed
            from layers data show ?thesis by blast
          qed
        qed
      qed
    qed
  qed
qed

theorem reduce_training_inputs_witness:
  "reduce example_collaborators 0 [Scalar 1, Scalar 2, Scalar 3] (PyInt 1) True (PyInt 2) [20] 1
     None None True []
     = ([FomSolve (Scalar 1), FomSolve (Scalar 2), FomSolve (Scalar 3),
         Registration (Scalar 1) None, Registration (Scalar 2) (Some [1]),
         Registration (Scalar 3) (Some [4]),
         PodCall, TrainCall [1, 20, 1], TrainCall [1, 20, 1]],
        Inr (\<lparr>rom_reference_solution = 0, rom_velocity_fields = [[1]], rom_neural_network = Some 0,
              rom_normalization = Some \<lparr>min_input = 1, max_input = 3, min_output = 1, max_output = 9\<rparr>\<rparr>,
             Some \<lparr>all_reduced_velocity_fields = [[1]], all_singular_values = [1],
                   all_full_velocity_fields = [[1], [4], [9]],
                   all_training_data = [([Finite 0], [Finite 0])],
                   all_validation_data = [([Finite 1], [Finite 1])],
                   all_best_loss = Some (Finite 0)\<rparr>)) \<and>
   normalize_input (Some \<lparr>min_input = 1, max_input = 3, min_output = 1, max_output = 9\<rparr>)
     (torch_tensor [[Scalar 1, Scalar 2, Scalar 3] ! 2]) = Inr [Finite 1] \<and>
   normalize_output (Some \<lparr>min_input = 1, max_input = 3, min_output = 1, max_output = 9\<rparr>)
     (map (dot (to_numpy example_collaborators ([[1], [4], [9]] ! 2))) [[1]]) = Inr [Finite 1] \<and>
   length [Finite 1] = length (parameter_entries ([Scalar 1, Scalar 2, Scalar 3] ! 2))"
proof -
  have perm: "\<forall>xs. set (shuffle example_collaborators xs) \<subseteq> set xs"
    by (simp add: example_collaborators_def)
  have pars: "[Scalar 1, Scalar 2, Scalar 3]
                  = (case (None :: (parameter \<times> real) list option) of
                       None \<Rightarrow> [Scalar 1, Scalar 2, Scalar 3] | Some cached \<Rightarrow> map fst cached)"
    by simp
  have vals:
    "normalize_input (Some \<lparr>min_input = 1, max_input = 3, min_output = 1, max_output = 9\<rparr>)
       (torch_tensor [[Scalar 1, Scalar 2, Scalar 3] ! 2]) = Inr [Finite 1] \<and>
     normalize_output (Some \<lparr>min_input = 1, max_input = 3, min_output = 1, max_output = 9\<rparr>)
       (map (dot (to_numpy example_collaborators ([[1], [4], [9]] ! 2))) [[1]]) = Inr [Finite 1] \<and>
     length [Finite 1] = length (parameter_entries ([Scalar 1, Scalar 2, Scalar 3] ! 2))"
    by (simp add: normalize_input_def normalize_output_def np_true_divide_def torch_tensor_def
          dot_def example_collaborators_def)
  from reduce_training_inputs [OF perm pars example_run] example_run vals
  show ?thesis by simp
qed

text \<open>
  The claim as it was stated makes every training input a tensor with one entry. For
  training parameters with two coordinates the inputs have two entries each, while the
  networks are still built with the input width \<open>1\<close>.
\<close>

theorem reduce_training_inputs_counterexample:
  "reduce example_collaborators 0 [Point [1, 2], Point [3, 4], Point [5, 6]] (PyInt 1) True (PyInt 2)
     [20] 1 None None True []
     = ([FomSolve (Point [1, 2]), FomSolve (Point [3, 4]), FomSolve (Point [5, 6]),
         Registration (Point [1, 2]) None, Registration (Point [3, 4]) (Some [9]),
         Registration (Point [5, 6]) (Some [49]),
         PodCall, TrainCall [1, 20, 1], TrainCall [1, 20, 1]],
        Inr (\<lparr>rom_reference_solution = 0, rom_velocity_fields = [[1]], rom_neural_network = Some 0,
              rom_normalization = Some \<lparr>min_input = 1, max_input = 6, min_output = 9, max_output = 121\<rparr>\<rparr>,
             Some \<lparr>all_reduced_velocity_fields = [[1]], all_singular_values = [1],
                   all_full_velocity_fields = [[9], [49], [121]],
                   all_training_data = [([Finite 0, Finite (1 / 5)], [Finite 0])],
                   all_validation_data = [([Finite (4 / 5), Finite 1], [Finite 1])],
                   all_best_loss = Some (Finite 0)\<rparr>))"
  by (simp add: reduce_def example_collaborators_def compute_full_solutions_def
        register_full_solutions_def perform_single_registration_def np_stack_def
        reduced_coefficients_def dot_def validation_slice_def training_slice_def split_index_def
        compute_normalization_def np_min_def np_max_def normalize_data_def normalize_input_def
        normalize_output_def np_true_divide_def multiple_restarts_training_def
        train_neural_network_def build_rom_def upt_examples Let_def torch_tensor_def)

end
